theory Spec2Isabelle
  imports Complex_Main "HOL-Library.AList" "HOL-Library.Char_ord" "HOL-Library.List_Lexorder"
begin

section \<open>The Date object, at the granularity of local calendar days\<close>

text \<open>
  Both scripts of the repository (the report-reminder script \<^verbatim>\<open>ratings.js\<close> with
  \<^verbatim>\<open>getDueReports\<close>, and the Daily Ratings Tracker with \<^verbatim>\<open>computeAveragesForEntries\<close>)
  read a Date through its local calendar fields. A Date is modelled by the number of its
  local day, counted from 1970-01-01 (day 0), from which every calendar field follows. The
  time of day and the time zone are not part of a day number. They matter in one place,
  the loop of \<^verbatim>\<open>getRatingsInRange\<close>, which compares time stamps: that loop is modelled a
  second time below, on time values in a time zone, where \<^verbatim>\<open>setDate\<close> keeps the time of
  day and a local midnight skipped by daylight saving shows. The end of the Date range
  (100,000,000 days either side of day 0) is left out.
  The calendar functions are those of the ECMAScript standard: \<open>DaysInYear\<close>,
  \<open>DayFromYear\<close>, \<open>YearFromTime\<close>, \<open>MonthFromTime\<close>, \<open>DateFromTime\<close>, \<open>WeekDay\<close> and
  \<open>MakeDay\<close>.
\<close>

type_synonym jsdate = int

definition DaysInYear :: "int \<Rightarrow> int" where
  "DaysInYear y =
     (if y mod 4 \<noteq> 0 then 365
      else if y mod 100 \<noteq> 0 then 366
      else if y mod 400 \<noteq> 0 then 365
      else 366)"

definition DayFromYear :: "int \<Rightarrow> int" where
  "DayFromYear y =
     365 * (y - 1970) + (y - 1969) div 4 - (y - 1901) div 100 + (y - 1601) div 400"

lemma div_step:
  fixes a c :: int
  assumes "0 < c"
  shows "(a + 1) div c = (if c dvd (a + 1) then a div c + 1 else a div c)"
proof -
  define q where "q = a div c"
  define r where "r = a mod c"
  have a: "a = c * q + r" and r0: "0 \<le> r" and rc: "r < c"
    using assms by (simp_all add: q_def r_def)
  show ?thesis
  proof (cases "r + 1 = c")
    case True
    then have eq: "a + 1 = c * (q + 1)" using a by (simp add: algebra_simps)
    then have "c dvd (a + 1)" by simp
    moreover have "(a + 1) div c = q + 1" using eq assms by simp
    ultimately show ?thesis by (simp add: q_def)
  next
    case False
    then have lt: "r + 1 < c" using rc by simp
    have eq: "a + 1 = c * q + (r + 1)" using a by simp
    have "(a + 1) div c = (c * q + (r + 1)) div c"
      by (simp only: eq)
    also have "\<dots> = q + (r + 1) div c"
      using assms by simp
    also have "(r + 1) div c = 0"
      using r0 lt by (simp add: div_pos_pos_trivial)
    finally have d: "(a + 1) div c = q"
      by simp
    have "(a + 1) mod c = (c * q + (r + 1)) mod c"
      by (simp only: eq)
    also have "\<dots> = (r + 1) mod c"
      by simp
    also have "\<dots> = r + 1"
      using r0 lt by (simp add: mod_pos_pos_trivial)
    finally have m: "(a + 1) mod c = r + 1" .
    then have "\<not> c dvd (a + 1)" using r0 by (simp add: dvd_eq_mod_eq_0)
    then show ?thesis using d by (simp add: q_def)
  qed
qed

lemma DayFromYear_Suc: "DayFromYear (y + 1) = DayFromYear y + DaysInYear y"
proof -
  have d4: "(y - 1968) div 4 = (if 4 dvd y then (y - 1969) div 4 + 1 else (y - 1969) div 4)"
    using div_step [of 4 "y - 1969"] by (simp add: dvd_diff_left_iff)
  have d100: "(y - 1900) div 100 = (if 100 dvd y then (y - 1901) div 100 + 1 else (y - 1901) div 100)"
    using div_step [of 100 "y - 1901"] by (simp add: dvd_diff_left_iff)
  have d400: "(y - 1600) div 400 = (if 400 dvd y then (y - 1601) div 400 + 1 else (y - 1601) div 400)"
    using div_step [of 400 "y - 1601"] by (simp add: dvd_diff_left_iff)
  have a: "100 dvd y \<Longrightarrow> 4 dvd y"
    using dvd_trans [of 4 100 y] by simp
  have b: "400 dvd y \<Longrightarrow> 100 dvd y"
    using dvd_trans [of 100 400 y] by simp
  show ?thesis
    unfolding DayFromYear_def DaysInYear_def
    using a b by (simp add: d4 d100 d400 mod_eq_0_iff_dvd)
qed

lemma DaysInYear_cases: "DaysInYear y = 365 \<or> DaysInYear y = 366"
  unfolding DaysInYear_def by simp

lemma DayFromYear_less_Suc: "DayFromYear y < DayFromYear (y + 1)"
  using DayFromYear_Suc [of y] DaysInYear_cases [of y] by linarith

text \<open>
  \<open>YearFromTime t\<close> is the largest year whose first day is not after \<open>t\<close>. It is
  computed from an estimate that is first lowered, then raised, one year at a time.
\<close>

function yearDown :: "int \<Rightarrow> int \<Rightarrow> int" where
  "yearDown t y = (if t < DayFromYear y then yearDown t (y - 1) else y)"
  by pat_completeness auto
termination
proof (relation "measure (\<lambda>(t, y). nat (DayFromYear y - t))")
  show "wf (measure (\<lambda>(t, y). nat (DayFromYear y - t)))" by simp
next
  fix t y :: int
  assume lt: "t < DayFromYear y"
  have "DayFromYear (y - 1) < DayFromYear y"
    using DayFromYear_less_Suc [of "y - 1"] by simp
  then show "((t, y - 1), (t, y)) \<in> measure (\<lambda>(t, y). nat (DayFromYear y - t))"
    using lt by simp
qed

declare yearDown.simps [simp del]

function yearUp :: "int \<Rightarrow> int \<Rightarrow> int" where
  "yearUp t y = (if DayFromYear (y + 1) \<le> t then yearUp t (y + 1) else y)"
  by pat_completeness auto
termination
proof (relation "measure (\<lambda>(t, y). nat (t - DayFromYear y))")
  show "wf (measure (\<lambda>(t, y). nat (t - DayFromYear y)))" by simp
next
  fix t y :: int
  assume le: "DayFromYear (y + 1) \<le> t"
  then show "((t, y + 1), (t, y)) \<in> measure (\<lambda>(t, y). nat (t - DayFromYear y))"
    using DayFromYear_less_Suc [of y] by simp
qed

declare yearUp.simps [simp del]

definition YearFromTime :: "int \<Rightarrow> int" where
  "YearFromTime t = yearUp t (yearDown t (1970 + t div 366))"

definition InLeapYear :: "int \<Rightarrow> int" where
  "InLeapYear t = (if DaysInYear (YearFromTime t) = 366 then 1 else 0)"

definition DayWithinYear :: "int \<Rightarrow> int" where
  "DayWithinYear t = t - DayFromYear (YearFromTime t)"

definition MonthFromTime :: "int \<Rightarrow> int" where
  "MonthFromTime t =
     (let d = DayWithinYear t; L = InLeapYear t in
      if d < 31 then 0
      else if d < 59 + L then 1
      else if d < 90 + L then 2
      else if d < 120 + L then 3
      else if d < 151 + L then 4
      else if d < 181 + L then 5
      else if d < 212 + L then 6
      else if d < 243 + L then 7
      else if d < 273 + L then 8
      else if d < 304 + L then 9
      else if d < 334 + L then 10
      else 11)"

definition DateFromTime :: "int \<Rightarrow> int" where
  "DateFromTime t =
     (let d = DayWithinYear t; L = InLeapYear t; m = MonthFromTime t in
      if m = 0 then d + 1
      else if m = 1 then d - 30
      else if m = 2 then d - 58 - L
      else if m = 3 then d - 89 - L
      else if m = 4 then d - 119 - L
      else if m = 5 then d - 150 - L
      else if m = 6 then d - 180 - L
      else if m = 7 then d - 211 - L
      else if m = 8 then d - 242 - L
      else if m = 9 then d - 272 - L
      else if m = 10 then d - 303 - L
      else d - 333 - L)"

definition WeekDay :: "int \<Rightarrow> int" where
  "WeekDay t = (t + 4) mod 7"

text \<open>The number of days of a year that lie before its month \<open>mn\<close> (0 is January).\<close>

definition monthStartDay :: "int \<Rightarrow> int \<Rightarrow> int" where
  "monthStartDay L mn =
     (if mn = 0 then 0
      else if mn = 1 then 31
      else if mn = 2 then 59 + L
      else if mn = 3 then 90 + L
      else if mn = 4 then 120 + L
      else if mn = 5 then 151 + L
      else if mn = 6 then 181 + L
      else if mn = 7 then 212 + L
      else if mn = 8 then 243 + L
      else if mn = 9 then 273 + L
      else if mn = 10 then 304 + L
      else 334 + L)"

text \<open>
  \<open>MakeDay year month date\<close>: the day number of the first of month \<open>month mod 12\<close> in year
  \<open>year + month div 12\<close>, plus \<open>date - 1\<close>. A month index of 12 is January of the next
  year and a date of 0 is the last day of the month before.
\<close>

definition MakeDay :: "int \<Rightarrow> int \<Rightarrow> int \<Rightarrow> int" where
  "MakeDay year month date =
     (let ym = year + month div 12;
          mn = month mod 12;
          L = (if DaysInYear ym = 366 then 1 else 0)
      in DayFromYear ym + monthStartDay L mn + date - 1)"

subsection \<open>The methods the scripts call\<close>

definition getFullYear :: "jsdate \<Rightarrow> int" where
  "getFullYear d = YearFromTime d"

definition getMonth :: "jsdate \<Rightarrow> int" where
  "getMonth d = MonthFromTime d"

definition getDate :: "jsdate \<Rightarrow> int" where
  "getDate d = DateFromTime d"

definition getDay :: "jsdate \<Rightarrow> int" where
  "getDay d = WeekDay d"

definition msPerDay :: int where
  "msPerDay = 86400000"

definition getTime :: "jsdate \<Rightarrow> int" where
  "getTime d = d * msPerDay"

text \<open>
  \<^verbatim>\<open>new Date(year, month, date)\<close>. The constructor reads a year from 0 to 99 as
  1900 + year.
\<close>

definition legacyYear :: "int \<Rightarrow> bool" where
  "legacyYear y = (0 \<le> y \<and> y \<le> 99)"

definition newDate :: "int \<Rightarrow> int \<Rightarrow> int \<Rightarrow> jsdate" where
  "newDate year month date =
     MakeDay (if legacyYear year then 1900 + year else year) month date"

text \<open>
  \<^verbatim>\<open>d.setDate(date)\<close> keeps the year and month of \<open>d\<close>; it returns the changed Date.
  Here, and in \<open>getTime\<close> above, a Date is a local day at midnight: these two are the
  methods of a Date in a zone in which every local midnight exists. \<open>setDate_tz\<close> and
  \<open>getTime_tz\<close> below are the methods on time values in any zone.
\<close>

definition setDate :: "jsdate \<Rightarrow> int \<Rightarrow> jsdate" where
  "setDate d date = MakeDay (YearFromTime d) (MonthFromTime d) date"

text \<open>Days from \<open>s\<close> to \<open>e\<close>, both included.\<close>

definition daysInclusive :: "jsdate \<Rightarrow> jsdate \<Rightarrow> int" where
  "daysInclusive s e = (getTime e - getTime s) div msPerDay + 1"

text \<open>The length of month \<open>m\<close> (0 is January) of year \<open>y\<close>.\<close>

definition daysInMonth :: "int \<Rightarrow> int \<Rightarrow> int" where
  "daysInMonth y m =
     (if m = 1 then (if DaysInYear y = 366 then 29 else 28)
      else if m = 3 \<or> m = 5 \<or> m = 8 \<or> m = 10 then 30
      else 31)"

section \<open>Calendar helpers of the report-reminder script\<close>

definition cloneDate :: "jsdate \<Rightarrow> jsdate" where
  "cloneDate d = newDate (getFullYear d) (getMonth d) (getDate d)"

definition isSunday :: "jsdate \<Rightarrow> bool" where
  "isSunday d = (getDay d = 0)"

definition lastDayOfMonth :: "jsdate \<Rightarrow> int" where
  "lastDayOfMonth d = getDate (newDate (getFullYear d) (getMonth d + 1) 0)"

definition isMonthEnd :: "jsdate \<Rightarrow> bool" where
  "isMonthEnd d = (getDate d = lastDayOfMonth d)"

definition isYearEnd :: "jsdate \<Rightarrow> bool" where
  "isYearEnd d = (getMonth d = 11 \<and> getDate d = 31)"

definition weekStartMonday :: "jsdate \<Rightarrow> jsdate" where
  "weekStartMonday d =
     (let day = getDay d;
          diff = (day + 6) mod 7;
          start = cloneDate d
      in setDate start (getDate start - diff))"

definition monthStart :: "jsdate \<Rightarrow> jsdate" where
  "monthStart d = newDate (getFullYear d) (getMonth d) 1"

definition monthEnd :: "jsdate \<Rightarrow> jsdate" where
  "monthEnd d = newDate (getFullYear d) (getMonth d + 1) 0"

definition yearStart :: "jsdate \<Rightarrow> jsdate" where
  "yearStart d = newDate (getFullYear d) 0 1"

definition yearEnd :: "jsdate \<Rightarrow> jsdate" where
  "yearEnd d = newDate (getFullYear d) 11 31"

section \<open>Calendar helpers of the Daily Ratings Tracker\<close>

definition isMonthEnd_tracker :: "jsdate \<Rightarrow> bool" where
  "isMonthEnd_tracker d =
     (let last = getDate (newDate (getFullYear d) (getMonth d + 1) 0)
      in getDate d = last)"

text \<open>The object \<^verbatim>\<open>{ start, end }\<close> that \<^verbatim>\<open>getWeekRangeEndingOn\<close> returns.\<close>

record dateRange =
  rangeStart :: jsdate
  rangeEnd :: jsdate

definition getWeekRangeEndingOn :: "jsdate \<Rightarrow> dateRange" where
  "getWeekRangeEndingOn d =
     (let dayIndexMonday0 = (getDay d + 6) mod 7;
          start = setDate d (getDate d - dayIndexMonday0);
          end = setDate start (getDate start + 6)
      in \<lparr>rangeStart = start, rangeEnd = end\<rparr>)"

section \<open>Values, objects and strings\<close>

text \<open>
  A value stored in a day's record, as \<^verbatim>\<open>JSON.parse\<close> returns it, or \<^verbatim>\<open>undefined\<close> for
  a property that is not there. Numbers are rationals: every stored rating and every sum of
  ratings below is one, and a quotient is the exact quotient, where the script's is the
  nearest double.
\<close>

datatype jsval = JUndefined | JNull | JBool bool | JNum rat | JStr string

text \<open>
  The day records and the two persisted tables are objects read by key: maps. The objects
  the scripts build and then enumerate (\<^verbatim>\<open>sums\<close>, \<^verbatim>\<open>counts\<close>, \<^verbatim>\<open>avg\<close>, and the tracker's
  \<^verbatim>\<open>store.entries\<close>, read with \<^verbatim>\<open>Object.keys\<close>) are association lists in insertion order,
  written with \<^const>\<open>AList.update\<close>.
\<close>

type_synonym dayObj = "string \<rightharpoonup> jsval"

definition getProp :: "dayObj \<Rightarrow> string \<Rightarrow> jsval" where
  "getProp obj k = (case obj k of None \<Rightarrow> JUndefined | Some v \<Rightarrow> v)"

text \<open>
  Reading a numeric property of \<^verbatim>\<open>sums\<close> or \<^verbatim>\<open>counts\<close>. Both objects are initialised for
  every category key before they are read, so the default is never returned.
\<close>

definition numProp :: "(string \<times> 'a::zero) list \<Rightarrow> string \<Rightarrow> 'a" where
  "numProp obj k = (case map_of obj k of None \<Rightarrow> 0 | Some x \<Rightarrow> x)"

text \<open>
  What the scripts take from the platform and this development does not define: the
  parsing of a string by \<^verbatim>\<open>Number\<close> (\<open>None\<close> when the result is not finite), the printing of
  a number by \<^verbatim>\<open>toFixed(2)\<close> and by \<^verbatim>\<open>String\<close>, and \<^verbatim>\<open>encodeURIComponent\<close>.
\<close>

record platform =
  strToNumber :: "string \<Rightarrow> rat option"
  toFixed2 :: "rat \<Rightarrow> string"
  numberToString :: "rat \<Rightarrow> string"
  encodeURIComponent :: "string \<Rightarrow> string"

fun showNat :: "nat \<Rightarrow> string" where
  "showNat n =
     (if n < 10 then [''0123456789'' ! n]
      else showNat (n div 10) @ [''0123456789'' ! (n mod 10)])"

definition showInt :: "int \<Rightarrow> string" where
  "showInt i = (if i < 0 then ''-'' @ showNat (nat (- i)) else showNat (nat i))"

definition padEnd :: "nat \<Rightarrow> char \<Rightarrow> string \<Rightarrow> string" where
  "padEnd n c str = str @ replicate (n - length str) c"

definition padStart :: "nat \<Rightarrow> char \<Rightarrow> string \<Rightarrow> string" where
  "padStart n c str = replicate (n - length str) c @ str"

fun joinWith :: "string \<Rightarrow> string list \<Rightarrow> string" where
  "joinWith sep [] = []"
| "joinWith sep [x] = x"
| "joinWith sep (x # y # ys) = x @ sep @ joinWith sep (y # ys)"

section \<open>The report-reminder script\<close>

subsection \<open>Configuration and persisted state\<close>

record config =
  recipients :: "string list"
  mailMode :: string
  apiEndpoint :: string
  autoSendIfPossible :: bool

definition CONFIG :: config where
  "CONFIG = \<lparr>recipients = [''your@email.com''], mailMode = ''mailto'',
              apiEndpoint = ''/api/send-rating-report'', autoSendIfPossible = False\<rparr>"

record category =
  key :: string
  name :: string
  label :: string

definition CATEGORIES :: "category list" where
  "CATEGORIES =
     [\<lparr>key = ''consistency'', name = ''rating_consistency'', label = ''Consistency''\<rparr>,
      \<lparr>key = ''discipline'', name = ''rating_discipline'', label = ''Discipline''\<rparr>,
      \<lparr>key = ''determination'', name = ''rating_determination'', label = ''Determination''\<rparr>,
      \<lparr>key = ''interest'', name = ''rating_interest'', label = ''Interest''\<rparr>]"

text \<open>
  The functions below take the category list as an argument; the script's own list is
  \<^const>\<open>CATEGORIES\<close>.

  The script keeps two items in \<^verbatim>\<open>localStorage\<close>: the ratings under \<^verbatim>\<open>STORAGE_KEY\<close>, a
  table from day key to day record, and the ledger of sent reports under \<^verbatim>\<open>SENT_KEY\<close>, a
  table from report type to a table from period id to the time of sending. An item is
  \<open>None\<close> when it is missing or does not parse, which \<^verbatim>\<open>readJson\<close> answers with its fallback.
  The state also holds \<^verbatim>\<open>window.location.href\<close>, which \<^verbatim>\<open>openMailtoDraft\<close> assigns. Every
  function that touches the state takes it and returns it.
\<close>

type_synonym store = "string \<rightharpoonup> dayObj"

type_synonym ledger = "string \<rightharpoonup> (string \<rightharpoonup> string)"

record browser =
  ratingsItem :: "store option"
  sentItem :: "ledger option"
  locationHref :: string

definition readJson :: "'a option \<Rightarrow> 'a \<Rightarrow> 'a" where
  "readJson item fallback = (case item of None \<Rightarrow> fallback | Some v \<Rightarrow> v)"

definition pad2 :: "int \<Rightarrow> string" where
  "pad2 n = (if n < 10 then ''0'' else []) @ showInt n"

definition isoLocal :: "jsdate \<Rightarrow> string" where
  "isoLocal d =
     showInt (getFullYear d) @ ''-'' @ pad2 (getMonth d + 1) @ ''-'' @ pad2 (getDate d)"

text \<open>A stored time of sending is a string, and counts as sent when it is not empty.\<close>

definition alreadySent :: "string \<Rightarrow> string \<Rightarrow> browser \<Rightarrow> bool \<times> browser" where
  "alreadySent rt pid s =
     (let sent = readJson (sentItem s) Map.empty
      in ((case sent rt of
             None \<Rightarrow> False
           | Some m \<Rightarrow> (case m pid of None \<Rightarrow> False | Some stamp \<Rightarrow> stamp \<noteq> [])), s))"

text \<open>
  \<open>stamp\<close> stands for \<^verbatim>\<open>new Date().toISOString()\<close>, here and in \<open>saveRatingForToday\<close>.
\<close>

definition markSent :: "string \<Rightarrow> string \<Rightarrow> string \<Rightarrow> browser \<Rightarrow> browser" where
  "markSent stamp rt pid s =
     (let sent = readJson (sentItem s) Map.empty;
          inner = (case sent rt of None \<Rightarrow> Map.empty | Some m \<Rightarrow> m);
          sent' = sent(rt \<mapsto> inner(pid \<mapsto> stamp))
      in s\<lparr>sentItem := Some sent'\<rparr>)"

subsection \<open>Daily storage\<close>

text \<open>\<open>today\<close> stands for \<^verbatim>\<open>new Date()\<close>.\<close>

definition saveRatingForToday ::
  "jsdate \<Rightarrow> string \<Rightarrow> string \<Rightarrow> jsval \<Rightarrow> browser \<Rightarrow> browser" where
  "saveRatingForToday today stamp categoryKey v s =
     (let todayKey = isoLocal today;
          store = readJson (ratingsItem s) Map.empty;
          day = (case store todayKey of None \<Rightarrow> Map.empty | Some obj \<Rightarrow> obj);
          day' = day(categoryKey \<mapsto> v);
          day'' = day'(''_updatedAt'' \<mapsto> JStr stamp)
      in s\<lparr>ratingsItem := Some (store(todayKey \<mapsto> day''))\<rparr>)"

record row =
  date :: string
  vals :: dayObj

section \<open>Facts about the calendar\<close>

lemma yearDown_le: "DayFromYear (yearDown t y) \<le> t"
proof (induction t y rule: yearDown.induct)
  case (1 t y)
  show ?case
  proof (cases "t < DayFromYear y")
    case True
    then show ?thesis using "1.IH" by (subst yearDown.simps) simp
  next
    case False
    then show ?thesis by (subst yearDown.simps) simp
  qed
qed

lemma yearUp_bounds:
  "DayFromYear y \<le> t \<Longrightarrow>
   DayFromYear (yearUp t y) \<le> t \<and> t < DayFromYear (yearUp t y + 1)"
proof (induction t y rule: yearUp.induct)
  case (1 t y)
  show ?case
  proof (cases "DayFromYear (y + 1) \<le> t")
    case True
    then show ?thesis using "1.IH" by (subst (1 2) yearUp.simps) simp
  next
    case False
    then show ?thesis using "1.prems" by (subst (1 2) yearUp.simps) simp
  qed
qed

lemma YearFromTime_bounds:
  "DayFromYear (YearFromTime t) \<le> t \<and> t < DayFromYear (YearFromTime t + 1)"
  unfolding YearFromTime_def by (rule yearUp_bounds) (rule yearDown_le)

lemma DayFromYear_mono_nat: "DayFromYear y \<le> DayFromYear (y + int n)"
proof (induction n)
  case 0
  then show ?case by simp
next
  case (Suc n)
  have "DayFromYear (y + int n) < DayFromYear (y + int n + 1)"
    by (rule DayFromYear_less_Suc)
  moreover have "y + int (Suc n) = y + int n + 1"
    by simp
  ultimately show ?case using Suc by (simp only:)
qed

lemma DayFromYear_mono: "y \<le> z \<Longrightarrow> DayFromYear y \<le> DayFromYear z"
  using DayFromYear_mono_nat [of y "nat (z - y)"] by simp

lemma YearFromTime_unique:
  assumes "DayFromYear y \<le> t" and "t < DayFromYear (y + 1)"
  shows "YearFromTime t = y"
proof -
  let ?z = "YearFromTime t"
  have b: "DayFromYear ?z \<le> t" "t < DayFromYear (?z + 1)"
    using YearFromTime_bounds [of t] by simp_all
  have "\<not> ?z + 1 \<le> y"
    using DayFromYear_mono [of "?z + 1" y] b assms by linarith
  moreover have "\<not> y + 1 \<le> ?z"
    using DayFromYear_mono [of "y + 1" ?z] b assms by linarith
  ultimately show ?thesis by linarith
qed

lemma DayWithinYear_range: "0 \<le> DayWithinYear t \<and> DayWithinYear t < 365 + InLeapYear t"
proof -
  have "t < DayFromYear (YearFromTime t) + DaysInYear (YearFromTime t)"
    using YearFromTime_bounds [of t] DayFromYear_Suc [of "YearFromTime t"] by simp
  then show ?thesis
    using YearFromTime_bounds [of t] DaysInYear_cases [of "YearFromTime t"]
    unfolding DayWithinYear_def InLeapYear_def by auto
qed

lemma MonthFromTime_range: "0 \<le> MonthFromTime t \<and> MonthFromTime t \<le> 11"
  unfolding MonthFromTime_def by (simp add: Let_def)

lemma DateFromTime_eq:
  "DateFromTime t = DayWithinYear t - monthStartDay (InLeapYear t) (MonthFromTime t) + 1"
  unfolding DateFromTime_def monthStartDay_def by (simp add: Let_def)

lemma MakeDay_same_month:
  "MakeDay (YearFromTime t) (MonthFromTime t) dt = t - DateFromTime t + dt"
proof -
  have m: "MonthFromTime t div 12 = 0" "MonthFromTime t mod 12 = MonthFromTime t"
    using MonthFromTime_range [of t] by simp_all
  show ?thesis
    unfolding MakeDay_def DateFromTime_eq
    by (simp add: m Let_def InLeapYear_def DayWithinYear_def)
qed

lemma setDate_shift: "setDate d (getDate d + k) = d + k"
  unfolding setDate_def getDate_def by (simp add: MakeDay_same_month)

lemma setDate_back: "setDate d (getDate d - k) = d - k"
  unfolding setDate_def getDate_def by (simp add: MakeDay_same_month)

section \<open>The report-reminder script, continued\<close>

subsection \<open>Reading a range of days\<close>

text \<open>
  The \<^verbatim>\<open>while\<close> loop of \<^verbatim>\<open>getRatingsInRange\<close>: \<open>cur\<close> advances by \<^verbatim>\<open>setDate(getDate() + 1)\<close>
  until it passes \<open>end\<close>. It ends because each step moves \<open>cur\<close> one day forward. This is
  the loop on local days; \<open>rangeLoop_tz\<close> below is the loop on time values, and the two
  return the same rows when every local midnight of the range exists
  (\<open>getRatingsInRange_day_level\<close>).
\<close>

function rangeLoop :: "store \<Rightarrow> jsdate \<Rightarrow> jsdate \<Rightarrow> row list \<Rightarrow> row list" where
  "rangeLoop store cur end rows =
     (if getTime cur \<le> getTime end then
        (let dayKey = isoLocal cur;
             dayObj = (case store dayKey of None \<Rightarrow> Map.empty | Some obj \<Rightarrow> obj)
         in rangeLoop store (setDate cur (getDate cur + 1)) end
              (rows @ [\<lparr>date = dayKey, vals = dayObj\<rparr>]))
      else rows)"
  by pat_completeness auto
termination
proof (relation "measure (\<lambda>(store, cur, end, rows). nat (end - cur + 1))")
  show "wf (measure (\<lambda>(store, cur, end, rows). nat (end - cur + 1)))" by simp
next
  fix store :: store and cur :: jsdate and "end" :: jsdate and rows :: "row list"
    and x :: string and xa :: dayObj
  assume "getTime cur \<le> getTime end"
  then have "cur \<le> end"
    by (simp add: getTime_def msPerDay_def)
  then show "((store, setDate cur (getDate cur + 1), end, rows @ [\<lparr>date = x, vals = xa\<rparr>]),
              (store, cur, end, rows))
             \<in> measure (\<lambda>(store, cur, end, rows). nat (end - cur + 1))"
    by (simp add: setDate_shift)
qed

declare rangeLoop.simps [simp del]

definition getRatingsInRange :: "jsdate \<Rightarrow> jsdate \<Rightarrow> browser \<Rightarrow> row list \<times> browser" where
  "getRatingsInRange startDate endDate s =
     (let store = readJson (ratingsItem s) Map.empty;
          cur = cloneDate startDate;
          end = cloneDate endDate
      in (rangeLoop store cur end [], s))"

subsection \<open>Averages\<close>

record accum =
  sumsObj :: "(string \<times> rat) list"
  countsObj :: "(string \<times> nat) list"

record stats =
  avg :: "(string \<times> jsval) list"
  counts :: "(string \<times> nat) list"

text \<open>The body of the inner \<^verbatim>\<open>forEach\<close>: one row, one category.\<close>

definition addRating :: "row \<Rightarrow> category \<Rightarrow> accum \<Rightarrow> accum" where
  "addRating r c acc =
     (case getProp (vals r) (key c) of
        JNum v \<Rightarrow>
          if 1 \<le> v \<and> v \<le> 5 then
            acc\<lparr>sumsObj := AList.update (key c) (numProp (sumsObj acc) (key c) + v) (sumsObj acc),
                countsObj := AList.update (key c) (numProp (countsObj acc) (key c) + 1) (countsObj acc)\<rparr>
          else acc
      | _ \<Rightarrow> acc)"

definition initAccum :: "category list \<Rightarrow> accum" where
  "initAccum cats =
     fold (\<lambda>c acc. acc\<lparr>sumsObj := AList.update (key c) 0 (sumsObj acc),
                          countsObj := AList.update (key c) 0 (countsObj acc)\<rparr>)
       cats \<lparr>sumsObj = [], countsObj = []\<rparr>"

definition calcAverages :: "category list \<Rightarrow> row list \<Rightarrow> stats" where
  "calcAverages cats rows =
     (let acc = fold (\<lambda>r acc. fold (addRating r) cats acc) rows (initAccum cats);
          a = fold (\<lambda>c a. AList.update (key c)
                     (if numProp (countsObj acc) (key c) \<noteq> 0
                      then JNum (numProp (sumsObj acc) (key c) / of_nat (numProp (countsObj acc) (key c)))
                      else JNull) a)
                cats []
      in \<lparr>avg = a, counts = countsObj acc\<rparr>)"

subsection \<open>Report text\<close>

definition averageLine :: "platform \<Rightarrow> stats \<Rightarrow> category \<Rightarrow> string" where
  "averageLine P st c =
     ''- '' @ label c @ '': '' @
       (case map_of (avg st) (key c) of Some (JNum a) \<Rightarrow> toFixed2 P a | _ \<Rightarrow> ''N/A'') @
       '' (days rated: '' @ showNat (numProp (counts st) (key c)) @ '')''"

definition tableRow :: "platform \<Rightarrow> category list \<Rightarrow> row \<Rightarrow> string" where
  "tableRow P cats r =
     date r @ '' | '' @
       joinWith '' | ''
         (map (\<lambda>c. padEnd 13 CHR '' ''
                  (case getProp (vals r) (key c) of JNum v \<Rightarrow> numberToString P v | _ \<Rightarrow> ''-''))
            cats)"

definition buildPlainTextReport ::
  "platform \<Rightarrow> category list \<Rightarrow> string \<Rightarrow> jsdate \<Rightarrow> jsdate \<Rightarrow> browser \<Rightarrow> string \<times> browser" where
  "buildPlainTextReport P cats title startDate endDate s =
     (let (rows, s1) = getRatingsInRange startDate endDate s;
          st = calcAverages cats rows;
          lines =
            [title,
             ''Period: '' @ isoLocal startDate @ '' to '' @ isoLocal endDate,
             [],
             ''Averages (1-5):''] @
            map (averageLine P st) cats @
            [[],
             ''Daily entries:'',
             ''Date       | '' @ joinWith '' | '' (map (\<lambda>c. padEnd 13 CHR '' '' (label c)) cats),
             ''-----------|-'' @ joinWith ''-|-'' (map (\<lambda>c. ''-------------'') cats)] @
            map (tableRow P cats) rows @
            [[],
             ''Generated from your Rezume portfolio ratings page.'']
      in (joinWith [CHR 0x0A] lines, s1))"

subsection \<open>Report scheduling\<close>

record report =
  rtype :: string
  periodId :: string
  subject :: string
  body :: string

definition buildWeeklyReport ::
  "platform \<Rightarrow> category list \<Rightarrow> jsdate \<Rightarrow> browser \<Rightarrow> report \<times> browser" where
  "buildWeeklyReport P cats now s =
     (let end = cloneDate now;
          start = weekStartMonday end;
          pid = isoLocal start @ ''_'' @ isoLocal end;
          (b, s1) = buildPlainTextReport P cats ''WEEKLY WORK RATINGS REPORT'' start end s
      in (\<lparr>rtype = ''weekly'', periodId = pid,
            subject = ''Weekly Work Ratings ('' @ isoLocal start @ '' to '' @ isoLocal end @ '')'',
            body = b\<rparr>, s1))"

definition buildMonthlyReport ::
  "platform \<Rightarrow> category list \<Rightarrow> jsdate \<Rightarrow> browser \<Rightarrow> report \<times> browser" where
  "buildMonthlyReport P cats now s =
     (let start = monthStart now;
          end = monthEnd now;
          pid = take 7 (isoLocal start);
          (b, s1) = buildPlainTextReport P cats ''MONTHLY WORK RATINGS REPORT'' start end s
      in (\<lparr>rtype = ''monthly'', periodId = pid,
            subject = ''Monthly Work Ratings ('' @ pid @ '')'',
            body = b\<rparr>, s1))"

definition buildYearlyReport ::
  "platform \<Rightarrow> category list \<Rightarrow> jsdate \<Rightarrow> browser \<Rightarrow> report \<times> browser" where
  "buildYearlyReport P cats now s =
     (let start = yearStart now;
          end = yearEnd now;
          pid = showInt (getFullYear now);
          (b, s1) = buildPlainTextReport P cats ''YEARLY WORK RATINGS REPORT'' start end s
      in (\<lparr>rtype = ''yearly'', periodId = pid,
            subject = ''Yearly Work Ratings ('' @ pid @ '')'',
            body = b\<rparr>, s1))"

text \<open>\<^verbatim>\<open>due.filter(function (r) { return !alreadySent(r.type, r.periodId); })\<close>\<close>

fun filterUnsent :: "report list \<Rightarrow> browser \<Rightarrow> report list \<times> browser" where
  "filterUnsent [] s = ([], s)"
| "filterUnsent (r # rs) s =
     (let (sent, s1) = alreadySent (rtype r) (periodId r) s;
          (rest, s2) = filterUnsent rs s1
      in (if \<not> sent then r # rest else rest, s2))"

definition getDueReports ::
  "platform \<Rightarrow> category list \<Rightarrow> jsdate \<Rightarrow> browser \<Rightarrow> report list \<times> browser" where
  "getDueReports P cats now s =
     (let due = [];
          (due, s) = (if isSunday now
                      then (let (r, s') = buildWeeklyReport P cats now s in (due @ [r], s'))
                      else (due, s));
          (due, s) = (if isMonthEnd now
                      then (let (r, s') = buildMonthlyReport P cats now s in (due @ [r], s'))
                      else (due, s));
          (due, s) = (if isYearEnd now
                      then (let (r, s') = buildYearlyReport P cats now s in (due @ [r], s'))
                      else (due, s))
      in filterUnsent due s)"

subsection \<open>Sending\<close>

definition openMailtoDraft :: "platform \<Rightarrow> string list \<Rightarrow> string \<Rightarrow> string \<Rightarrow> browser \<Rightarrow> browser" where
  "openMailtoDraft P toList subj bdy s =
     (let to = joinWith '','' toList;
          url = ''mailto:'' @ encodeURIComponent P to @
                ''?subject='' @ encodeURIComponent P subj @
                ''&body='' @ encodeURIComponent P bdy
      in s\<lparr>locationHref := url\<rparr>)"

text \<open>
  What \<^verbatim>\<open>fetch\<close> settles to: a rejection (the network failed), or a response with its
  \<^verbatim>\<open>ok\<close> flag, its status and what \<^verbatim>\<open>res.text()\<close> settles to (\<open>Inl\<close>: the read was
  rejected). A promise is modelled by the value it settles to, \<open>Inl\<close> for a rejection.
\<close>

datatype error = Error string

datatype fetchOutcome =
    FetchRejected string
  | Response bool nat "string + string"

record apiRequest =
  reqTo :: "string list"
  reqSubject :: string
  reqText :: string

definition sendViaApi ::
  "config \<Rightarrow> (string \<Rightarrow> apiRequest \<Rightarrow> fetchOutcome) \<Rightarrow> report \<Rightarrow> error + unit" where
  "sendViaApi cfg fetch rep =
     (case fetch (apiEndpoint cfg)
             \<lparr>reqTo = recipients cfg, reqSubject = subject rep, reqText = body rep\<rparr> of
        FetchRejected e \<Rightarrow> Inl (Error e)
      | Response ok status txt \<Rightarrow>
          if \<not> ok then
            (case txt of
               Inl e \<Rightarrow> Inl (Error e)
             | Inr t \<Rightarrow> Inl (Error (''API failed: '' @ showNat status @ '' '' @ t)))
          else Inr ())"

definition sendReport ::
  "platform \<Rightarrow> config \<Rightarrow> (string \<Rightarrow> apiRequest \<Rightarrow> fetchOutcome) \<Rightarrow> string \<Rightarrow>
   report option \<Rightarrow> browser \<Rightarrow> (error + unit) \<times> browser" where
  "sendReport P cfg fetch stamp rep s =
     (case rep of
        None \<Rightarrow> (Inr (), s)
      | Some r \<Rightarrow>
          if mailMode cfg = ''api'' then
            (case sendViaApi cfg fetch r of
               Inl e \<Rightarrow> (Inl e, s)
             | Inr u \<Rightarrow> (Inr (), markSent stamp (rtype r) (periodId r) s))
          else
            (let s1 = openMailtoDraft P (recipients cfg) (subject r) (body r) s;
                 s2 = markSent stamp (rtype r) (periodId r) s1
             in (Inr (), s2)))"

section \<open>The Daily Ratings Tracker\<close>

definition pad2_tracker :: "int \<Rightarrow> string" where
  "pad2_tracker n = padStart 2 CHR ''0'' (showInt n)"

definition toISODate :: "jsdate \<Rightarrow> string" where
  "toISODate d =
     showInt (getFullYear d) @ ''-'' @ pad2_tracker (getMonth d + 1) @ ''-'' @
     pad2_tracker (getDate d)"

text \<open>\<^verbatim>\<open>Number(v)\<close>, \<open>None\<close> when the result is not finite.\<close>

definition toNumber :: "platform \<Rightarrow> jsval \<Rightarrow> rat option" where
  "toNumber P v =
     (case v of
        JUndefined \<Rightarrow> None
      | JNull \<Rightarrow> Some 0
      | JBool b \<Rightarrow> Some (if b then 1 else 0)
      | JNum x \<Rightarrow> Some x
      | JStr str \<Rightarrow> strToNumber P str)"

text \<open>\<^verbatim>\<open>Math.round\<close>: halves round up.\<close>

definition Math_round :: "rat \<Rightarrow> int" where
  "Math_round x = \<lfloor>x + 1 / 2\<rfloor>"

definition clampRating :: "platform \<Rightarrow> jsval \<Rightarrow> int option" where
  "clampRating P v =
     (case toNumber P v of
        None \<Rightarrow> None
      | Some x \<Rightarrow> (let n = Math_round x in if n < 1 \<or> n > 5 then None else Some n))"

text \<open>The loop of \<^verbatim>\<open>mean\<close>: entries that \<^verbatim>\<open>Number\<close> does not make finite are skipped.\<close>

definition mean :: "platform \<Rightarrow> jsval list \<Rightarrow> rat option" where
  "mean P numbers =
     (let (total, cnt) =
            fold (\<lambda>x (total, cnt).
                    case toNumber P x of
                      None \<Rightarrow> (total, cnt)
                    | Some n \<Rightarrow> (total + n, cnt + 1))
              numbers (0, 0 :: nat)
      in if cnt \<noteq> 0 then Some (total / of_nat cnt) else None)"

record trackerStore =
  entries :: "(string \<times> dayObj) list"

record entryRow =
  entryDate :: string
  data :: dayObj

text \<open>
  Keys are compared as strings. The sort is by \<open>\<le>\<close>, which is how \<^verbatim>\<open>localeCompare\<close>
  orders keys of the form \<^verbatim>\<open>YYYY-MM-DD\<close>, the keys the tracker writes; nothing is stated
  below about the order of other keys.
\<close>

definition listEntriesInRange :: "trackerStore \<Rightarrow> jsdate \<Rightarrow> jsdate \<Rightarrow> entryRow list" where
  "listEntriesInRange store startDate endDate =
     (let startISO = toISODate startDate;
          endISO = toISODate endDate;
          keys = map fst (entries store);
          rows = map (\<lambda>iso. \<lparr>entryDate = iso,
                                data = (case map_of (entries store) iso of
                                          None \<Rightarrow> Map.empty | Some obj \<Rightarrow> obj)\<rparr>)
                   (filter (\<lambda>iso. startISO \<le> iso \<and> iso \<le> endISO) keys)
      in sort_key entryDate rows)"

text \<open>
  One pass of the main loop of \<^verbatim>\<open>computeAveragesForEntries\<close>. A day missing a rating for
  some category is skipped. On a day that is kept, \<^verbatim>\<open>Number\<close> of every rating is finite,
  so the \<open>None\<close> branch of the inner loop is not taken.
\<close>

definition addEntry ::
  "platform \<Rightarrow> category list \<Rightarrow> entryRow \<Rightarrow> (string \<times> rat) list \<times> nat \<Rightarrow>
   (string \<times> rat) list \<times> nat" where
  "addEntry P cats r acc =
     (let (sm, cnt) = acc;
          ok = list_all (\<lambda>c. clampRating P (getProp (data r) (key c)) \<noteq> None) cats
      in if \<not> ok then (sm, cnt)
         else (fold (\<lambda>c sm. case toNumber P (getProp (data r) (key c)) of
                                None \<Rightarrow> sm
                              | Some x \<Rightarrow> AList.update (key c) (numProp sm (key c) + x) sm)
                 cats sm,
               cnt + 1))"

record averages =
  daysCount :: nat
  perCategory :: "(string \<times> jsval) list"
  overall :: "rat option"

definition computeAveragesForEntries ::
  "platform \<Rightarrow> category list \<Rightarrow> entryRow list \<Rightarrow> averages" where
  "computeAveragesForEntries P cats entryRows =
     (let sums0 = fold (\<lambda>c sm. AList.update (key c) 0 sm) cats [];
          (sm, cnt) = fold (addEntry P cats) entryRows (sums0, 0);
          avgs = fold (\<lambda>c a. AList.update (key c)
                        (if cnt \<noteq> 0 then JNum (numProp sm (key c) / of_nat cnt) else JNull) a)
                   cats [];
          ov = mean P (map (\<lambda>k. case map_of avgs k of None \<Rightarrow> JUndefined | Some v \<Rightarrow> v)
                         (map fst avgs))
      in \<lparr>daysCount = cnt, perCategory = avgs, overall = ov\<rparr>)"

section \<open>The loop of getRatingsInRange on time values\<close>

text \<open>
  A Date holds a time value, in milliseconds from 1970-01-01T00:00Z. The time zone is the
  platform's: \<open>tzaOfUTC\<close> is the offset of local time at a time value (\<^verbatim>\<open>LocalTZA(t, true)\<close>
  of the ECMAScript standard) and \<open>tzaOfLocal\<close> the offset by which a local time is read
  (\<^verbatim>\<open>LocalTZA(t, false)\<close>: for a local time that a daylight-saving shift skips, the offset
  in force before the shift). \<open>LocalTime\<close>, \<open>UTC_of\<close> (the standard's \<^verbatim>\<open>UTC\<close>), \<open>Day\<close> and
  \<open>TimeWithinDay\<close> are the standard's; the calendar of a time value is the calendar of its
  local day.
\<close>

record zone =
  tzaOfUTC :: "int \<Rightarrow> int"
  tzaOfLocal :: "int \<Rightarrow> int"

definition LocalTime :: "zone \<Rightarrow> int \<Rightarrow> int" where
  "LocalTime Z t = t + tzaOfUTC Z t"

definition UTC_of :: "zone \<Rightarrow> int \<Rightarrow> int" where
  "UTC_of Z t = t - tzaOfLocal Z t"

definition Day :: "int \<Rightarrow> int" where
  "Day t = t div msPerDay"

definition TimeWithinDay :: "int \<Rightarrow> int" where
  "TimeWithinDay t = t mod msPerDay"

definition localDay :: "zone \<Rightarrow> int \<Rightarrow> jsdate" where
  "localDay Z tv = Day (LocalTime Z tv)"

definition getFullYear_tz :: "zone \<Rightarrow> int \<Rightarrow> int" where
  "getFullYear_tz Z tv = YearFromTime (Day (LocalTime Z tv))"

definition getMonth_tz :: "zone \<Rightarrow> int \<Rightarrow> int" where
  "getMonth_tz Z tv = MonthFromTime (Day (LocalTime Z tv))"

definition getDate_tz :: "zone \<Rightarrow> int \<Rightarrow> int" where
  "getDate_tz Z tv = DateFromTime (Day (LocalTime Z tv))"

definition getTime_tz :: "int \<Rightarrow> int" where
  "getTime_tz tv = tv"

definition newDate_tz :: "zone \<Rightarrow> int \<Rightarrow> int \<Rightarrow> int \<Rightarrow> int" where
  "newDate_tz Z year month dt =
     UTC_of Z (MakeDay (if legacyYear year then 1900 + year else year) month dt * msPerDay)"

definition setDate_tz :: "zone \<Rightarrow> int \<Rightarrow> int \<Rightarrow> int" where
  "setDate_tz Z tv dt =
     (let t = LocalTime Z tv
      in UTC_of Z (MakeDay (YearFromTime (Day t)) (MonthFromTime (Day t)) dt * msPerDay
                    + TimeWithinDay t))"

definition cloneDate_tz :: "zone \<Rightarrow> int \<Rightarrow> int" where
  "cloneDate_tz Z d = newDate_tz Z (getFullYear_tz Z d) (getMonth_tz Z d) (getDate_tz Z d)"

definition isoLocal_tz :: "zone \<Rightarrow> int \<Rightarrow> string" where
  "isoLocal_tz Z d =
     showInt (getFullYear_tz Z d) @ ''-'' @ pad2 (getMonth_tz Z d + 1) @ ''-'' @
     pad2 (getDate_tz Z d)"

text \<open>
  The loop of \<^verbatim>\<open>getRatingsInRange\<close> on time values. For a zone given by arbitrary offset
  functions nothing says that \<open>cur\<close> ever passes \<open>end\<close>, so the result is optional: \<open>None\<close>
  is the loop that does not end.
\<close>

partial_function (option) rangeLoop_tz ::
  "zone \<Rightarrow> store \<Rightarrow> int \<Rightarrow> int \<Rightarrow> row list \<Rightarrow> row list option" where
  "rangeLoop_tz Z store cur end rows =
     (if getTime_tz cur \<le> getTime_tz end then
        rangeLoop_tz Z store (setDate_tz Z cur (getDate_tz Z cur + 1)) end
          (rows @ [\<lparr>date = isoLocal_tz Z cur,
                     vals = (case store (isoLocal_tz Z cur) of
                               None \<Rightarrow> Map.empty | Some obj \<Rightarrow> obj)\<rparr>])
      else Some rows)"

declare rangeLoop_tz.simps [code]

definition getRatingsInRange_tz ::
  "zone \<Rightarrow> int \<Rightarrow> int \<Rightarrow> browser \<Rightarrow> row list option \<times> browser" where
  "getRatingsInRange_tz Z startDate endDate s =
     (let store = readJson (ratingsItem s) Map.empty;
          cur = cloneDate_tz Z startDate;
          end = cloneDate_tz Z endDate
      in (rangeLoop_tz Z store cur end [], s))"

section \<open>Values used in the statements and examples\<close>

text \<open>The row that \<^verbatim>\<open>getRatingsInRange\<close> pushes for day \<open>d\<close>.\<close>

definition rowFor :: "store \<Rightarrow> jsdate \<Rightarrow> row" where
  "rowFor store d =
     \<lparr>date = isoLocal d,
      vals = (case store (isoLocal d) of None \<Rightarrow> Map.empty | Some obj \<Rightarrow> obj)\<rparr>"

text \<open>A store with ratings for 2024-01-02 only.\<close>

definition example_one_day :: "(string \<times> dayObj) list" where
  "example_one_day = [(''2024-01-02'', [''a'' \<mapsto> JNum 5])]"

definition example_one_day_browser :: browser where
  "example_one_day_browser =
     \<lparr>ratingsItem = Some (map_of example_one_day), sentItem = None, locationHref = []\<rparr>"

text \<open>The candidates of \<open>getDueReports\<close>, before the filter.\<close>

definition candidates :: "platform \<Rightarrow> category list \<Rightarrow> jsdate \<Rightarrow> browser \<Rightarrow> report list" where
  "candidates P cats now s =
     (if isSunday now then [fst (buildWeeklyReport P cats now s)] else []) @
     (if isMonthEnd now then [fst (buildMonthlyReport P cats now s)] else []) @
     (if isYearEnd now then [fst (buildYearlyReport P cats now s)] else [])"

text \<open>
  A platform and an empty browser state for the closed examples. The platform's functions
  are stand-ins: nothing stated in the examples depends on what they return.
\<close>

definition example_platform :: platform where
  "example_platform =
     \<lparr>strToNumber = (\<lambda>str. None), toFixed2 = (\<lambda>x. ''#.##''),
      numberToString = (\<lambda>x. ''#''), encodeURIComponent = (\<lambda>str. str)\<rparr>"

definition fresh_browser :: browser where
  "fresh_browser = \<lparr>ratingsItem = None, sentItem = None, locationHref = []\<rparr>"

text \<open>The record stored for a day, or the empty object: \<^verbatim>\<open>store[dayKey] || {}\<close>.\<close>

definition dayRecord :: "store \<Rightarrow> string \<Rightarrow> dayObj" where
  "dayRecord store dayKey = (case store dayKey of None \<Rightarrow> Map.empty | Some obj \<Rightarrow> obj)"

text \<open>
  The ratings \<^verbatim>\<open>{2024-01-01: {a: 3}, 2024-01-02: {a: 5, b: 2}}\<close> with the two categories
  \<open>a\<close> and \<open>b\<close>, and a weekly report.
\<close>

definition example_two_days :: "(string \<times> dayObj) list" where
  "example_two_days =
     [(''2024-01-01'', [''a'' \<mapsto> JNum 3]),
      (''2024-01-02'', [''a'' \<mapsto> JNum 5, ''b'' \<mapsto> JNum 2])]"

definition example_two_days_browser :: browser where
  "example_two_days_browser =
     \<lparr>ratingsItem = Some (map_of example_two_days), sentItem = None, locationHref = []\<rparr>"

definition example_categories :: "category list" where
  "example_categories =
     [\<lparr>key = ''a'', name = ''rating_a'', label = ''A''\<rparr>,
      \<lparr>key = ''b'', name = ''rating_b'', label = ''B''\<rparr>]"

definition example_report :: report where
  "example_report =
     \<lparr>rtype = ''weekly'', periodId = ''2023-12-25_2023-12-31'',
      subject = ''Weekly Work Ratings (2023-12-25 to 2023-12-31)'', body = ''WEEKLY''\<rparr>"

text \<open>
  A score that \<^verbatim>\<open>calcAverages\<close> counts: a number from 1 to 5. \<open>withoutInvalid\<close> removes
  from a day's record every property that is not one. \<open>completeDay\<close> is the tracker's test
  for a day that counts: \<^verbatim>\<open>clampRating\<close> accepts the value of every category.
\<close>

definition validScore :: "jsval \<Rightarrow> bool" where
  "validScore v = (case v of JNum x \<Rightarrow> 1 \<le> x \<and> x \<le> 5 | _ \<Rightarrow> False)"

definition withoutInvalid :: "dayObj \<Rightarrow> dayObj" where
  "withoutInvalid obj =
     (\<lambda>k. case obj k of None \<Rightarrow> None | Some v \<Rightarrow> if validScore v then Some v else None)"

definition completeDay :: "platform \<Rightarrow> category list \<Rightarrow> entryRow \<Rightarrow> bool" where
  "completeDay P cats r = list_all (\<lambda>c. clampRating P (getProp (data r) (key c)) \<noteq> None) cats"

text \<open>
  Tracker entries for one day: a score of 5.4, a score of \<^verbatim>\<open>true\<close>, and no score at all
  for category \<open>a\<close>; and two rows whose scores for category \<open>b\<close> are 7 and the string
  \<^verbatim>\<open>"5"\<close>.
\<close>

definition example_out_of_range_entry :: entryRow where
  "example_out_of_range_entry =
     \<lparr>entryDate = ''2024-01-01'', data = [''a'' \<mapsto> JNum (27 / 5), ''b'' \<mapsto> JNum 2]\<rparr>"

definition example_non_numeric_entry :: entryRow where
  "example_non_numeric_entry =
     \<lparr>entryDate = ''2024-01-01'', data = [''a'' \<mapsto> JBool True, ''b'' \<mapsto> JNum 2]\<rparr>"

definition example_absent_entry :: entryRow where
  "example_absent_entry = \<lparr>entryDate = ''2024-01-01'', data = [''b'' \<mapsto> JNum 2]\<rparr>"

definition example_invalid_rows :: "row list" where
  "example_invalid_rows =
     [\<lparr>date = ''2024-01-01'', vals = [''a'' \<mapsto> JNum 3, ''b'' \<mapsto> JNum 7]\<rparr>,
      \<lparr>date = ''2024-01-02'', vals = [''a'' \<mapsto> JNum 4, ''b'' \<mapsto> JStr ''5'']\<rparr>]"

text \<open>
  Local midnight of day \<open>D\<close> exists in a zone when a Date set to it shows it again, and
  the midnights ascend at \<open>D\<close> when the midnight after day \<open>D\<close> is a later time value than
  the midnight of \<open>D\<close>.
\<close>

definition midnightExists :: "zone \<Rightarrow> int \<Rightarrow> bool" where
  "midnightExists Z D = (LocalTime Z (UTC_of Z (D * msPerDay)) = D * msPerDay)"

definition midnightsAscend :: "zone \<Rightarrow> int \<Rightarrow> bool" where
  "midnightsAscend Z D = (UTC_of Z (D * msPerDay) < UTC_of Z ((D + 1) * msPerDay))"

text \<open>
  The zone of Havana around 2024-03-10 (day 19792): five hours behind UTC until local
  midnight of that day, which daylight saving skips to 01:00, and four hours behind from
  then on.
\<close>

definition havana :: zone where
  "havana =
     \<lparr>tzaOfUTC = (\<lambda>t. if t < 19792 * msPerDay + 18000000 then - 18000000 else - 14400000),
      tzaOfLocal = (\<lambda>t. if t < 19792 * msPerDay + 3600000 then - 18000000 else - 14400000)\<rparr>"

text \<open>A key of the form \<^verbatim>\<open>YYYY-MM-DD\<close>.\<close>

definition isDigit :: "char \<Rightarrow> bool" where
  "isDigit c = (CHR ''0'' \<le> c \<and> c \<le> CHR ''9'')"

definition isDateKey :: "string \<Rightarrow> bool" where
  "isDateKey k =
     (length k = 10 \<and> k ! 4 = CHR ''-'' \<and> k ! 7 = CHR ''-'' \<and>
      list_all isDigit (take 4 k @ take 2 (drop 5 k) @ take 2 (drop 8 k)))"

section \<open>Facts about months\<close>

lemma month_cases:
  fixes m :: int
  assumes "0 \<le> m" "m \<le> 11"
  shows "m = 0 \<or> m = 1 \<or> m = 2 \<or> m = 3 \<or> m = 4 \<or> m = 5 \<or> m = 6 \<or> m = 7 \<or> m = 8 \<or>
         m = 9 \<or> m = 10 \<or> m = 11"
  using assms by presburger

lemma MakeDay_fields:
  assumes "0 \<le> m" "m \<le> 11" "1 \<le> dt" "dt \<le> daysInMonth y m"
  shows "YearFromTime (MakeDay y m dt) = y \<and> MonthFromTime (MakeDay y m dt) = m \<and>
         DateFromTime (MakeDay y m dt) = dt"
proof -
  define L :: int where "L = (if DaysInYear y = 366 then 1 else 0)"
  define e where "e = monthStartDay L m + dt - 1"
  have mm: "m div 12 = 0" "m mod 12 = m"
    using assms(1,2) by simp_all
  have md: "MakeDay y m dt = DayFromYear y + e"
    unfolding MakeDay_def e_def L_def by (simp add: mm Let_def)
  have diy: "DaysInYear y = 365 + L"
    using DaysInYear_cases [of y] unfolding L_def by auto
  have L01: "L = 0 \<or> L = 1"
    unfolding L_def by simp
  have dim: "daysInMonth y m = (if m = 1 then 28 + L else if m = 3 \<or> m = 5 \<or> m = 8 \<or> m = 10 then 30 else 31)"
    unfolding daysInMonth_def L_def by simp
  have range: "0 \<le> e \<and> e < 365 + L"
    using month_cases [OF assms(1,2)] assms(3,4) L01
    unfolding e_def monthStartDay_def dim by (elim disjE) simp_all
  have yr: "YearFromTime (DayFromYear y + e) = y"
    by (rule YearFromTime_unique) (use range DayFromYear_Suc [of y] diy in simp_all)
  have leap: "InLeapYear (DayFromYear y + e) = L"
    unfolding InLeapYear_def yr L_def by simp
  have dwy: "DayWithinYear (DayFromYear y + e) = e"
    unfolding DayWithinYear_def yr by simp
  have mon0: "MonthFromTime (DayFromYear y + e) =
      (if e < 31 then 0 else if e < 59 + L then 1 else if e < 90 + L then 2
       else if e < 120 + L then 3 else if e < 151 + L then 4 else if e < 181 + L then 5
       else if e < 212 + L then 6 else if e < 243 + L then 7 else if e < 273 + L then 8
       else if e < 304 + L then 9 else if e < 334 + L then 10 else 11)"
    unfolding MonthFromTime_def leap dwy by (simp add: Let_def)
  have "(if e < 31 then 0 else if e < 59 + L then 1 else if e < 90 + L then 2
       else if e < 120 + L then 3 else if e < 151 + L then 4 else if e < 181 + L then 5
       else if e < 212 + L then 6 else if e < 243 + L then 7 else if e < 273 + L then 8
       else if e < 304 + L then 9 else if e < 334 + L then 10 else 11) = m"
    using month_cases [OF assms(1,2)] assms(3,4) L01
    unfolding e_def monthStartDay_def dim
    by (elim disjE) simp_all
  then have mon: "MonthFromTime (DayFromYear y + e) = m"
    by (simp only: mon0)
  have "DateFromTime (DayFromYear y + e) = e - monthStartDay L m + 1"
    by (simp only: DateFromTime_eq leap dwy mon)
  then have dat: "DateFromTime (DayFromYear y + e) = dt"
    by (simp add: e_def)
  show ?thesis
    unfolding md using yr mon dat by simp
qed

lemma MakeDay_day0_next:
  assumes "0 \<le> m" "m \<le> 11"
  shows "MakeDay y (m + 1) 0 = MakeDay y m (daysInMonth y m)"
proof (cases "m = 11")
  case True
  have "DaysInYear y = 365 + (if DaysInYear y = 366 then 1 else 0)"
    using DaysInYear_cases [of y] by auto
  then show ?thesis
    unfolding MakeDay_def True using DayFromYear_Suc [of y]
    by (simp add: Let_def monthStartDay_def daysInMonth_def)
next
  case False
  then have r: "0 \<le> m + 1" "m + 1 \<le> 11" using assms by simp_all
  have mm: "(m + 1) div 12 = 0" "(m + 1) mod 12 = m + 1" "m div 12 = 0" "m mod 12 = m"
    using r assms by simp_all
  show ?thesis
    using month_cases [OF assms] False
    unfolding MakeDay_def mm
    by (elim disjE) (simp_all add: Let_def monthStartDay_def daysInMonth_def)
qed

lemma daysInMonth_range: "28 \<le> daysInMonth y m \<and> daysInMonth y m \<le> 31"
  unfolding daysInMonth_def by simp

lemma DaysInYear_legacy:
  assumes "1 \<le> y" "y \<le> 99"
  shows "DaysInYear (1900 + y) = DaysInYear y"
proof -
  have a: "(1900 + y) mod 4 = y mod 4"
    using mod_mult_self4 [of 4 475 y] by simp
  have "(1900 + y) mod 100 = y mod 100"
    using mod_mult_self4 [of 100 19 y] by simp
  then have b: "y mod 100 = y" "(1900 + y) mod 100 = y"
    using assms by simp_all
  have c: "y \<noteq> 0" using assms by simp
  show ?thesis
    unfolding DaysInYear_def a b using c by simp
qed

lemma last_day_of_month:
  assumes "getFullYear d \<noteq> 0"
  shows "getDate (newDate (getFullYear d) (getMonth d + 1) 0)
           = daysInMonth (getFullYear d) (getMonth d)"
proof -
  let ?y = "getFullYear d" and ?m = "getMonth d"
  define y' where "y' = (if legacyYear ?y then 1900 + ?y else ?y)"
  have m: "0 \<le> ?m" "?m \<le> 11"
    using MonthFromTime_range [of d] by (simp_all add: getMonth_def)
  have "DaysInYear y' = DaysInYear ?y"
    using assms DaysInYear_legacy [of ?y] unfolding y'_def legacyYear_def by auto
  then have dim: "daysInMonth y' ?m = daysInMonth ?y ?m"
    unfolding daysInMonth_def by simp
  have "newDate ?y (?m + 1) 0 = MakeDay y' ?m (daysInMonth y' ?m)"
    unfolding newDate_def y'_def [symmetric] by (rule MakeDay_day0_next [OF m])
  moreover have "DateFromTime (MakeDay y' ?m (daysInMonth y' ?m)) = daysInMonth y' ?m"
    using MakeDay_fields [OF m, of "daysInMonth y' ?m" y'] daysInMonth_range [of y' ?m] by simp
  ultimately show ?thesis
    by (simp add: getDate_def dim)
qed

section \<open>Facts about weeks\<close>

lemma cloneDate_id: "\<not> legacyYear (getFullYear d) \<Longrightarrow> cloneDate d = d"
  unfolding cloneDate_def newDate_def getFullYear_def getMonth_def getDate_def
  by (simp add: MakeDay_same_month)

lemma getTime_le: "getTime a \<le> getTime b \<longleftrightarrow> a \<le> b"
  unfolding getTime_def msPerDay_def by simp

lemma daysInclusive_eq: "daysInclusive a b = b - a + 1"
proof -
  have "getTime b - getTime a = (b - a) * msPerDay"
    unfolding getTime_def by (simp add: algebra_simps)
  then show ?thesis
    unfolding daysInclusive_def by (simp add: msPerDay_def)
qed

lemma monday_index_range: "0 \<le> (getDay d + 6) mod 7 \<and> (getDay d + 6) mod 7 \<le> 6"
  by simp

lemma monday_start_day: "getDay (d - (getDay d + 6) mod 7) = 1"
  unfolding getDay_def WeekDay_def by presburger

lemma monday_index_six: "(getDay d + 6) mod 7 = 6 \<longleftrightarrow> getDay d = 0"
  unfolding getDay_def WeekDay_def by presburger

lemma getWeekRangeEndingOn_eq:
  "getWeekRangeEndingOn d =
     \<lparr>rangeStart = d - (getDay d + 6) mod 7, rangeEnd = d - (getDay d + 6) mod 7 + 6\<rparr>"
  unfolding getWeekRangeEndingOn_def by (simp add: Let_def setDate_back setDate_shift)

lemma weekStartMonday_eq:
  "weekStartMonday d = cloneDate d - (getDay d + 6) mod 7"
  unfolding weekStartMonday_def by (simp add: Let_def setDate_back)

section \<open>The weekly window\<close>

text \<open>
  Claim C3. The week computed by \<^verbatim>\<open>getWeekRangeEndingOn\<close> for a date \<open>d\<close> starts on a
  Monday, contains \<open>d\<close> and has exactly seven days, whatever the weekday of \<open>d\<close>. The pair
  that \<^verbatim>\<open>buildWeeklyReport\<close> uses, from \<^verbatim>\<open>weekStartMonday\<close> of the day to the day itself,
  starts on a Monday and contains the day; it has seven days exactly when the day is a
  Sunday, the only day on which \<^verbatim>\<open>getDueReports\<close> builds the weekly report. (The pair is
  taken after \<^verbatim>\<open>cloneDate\<close>, which is the identity outside the years 0 to 99.)
\<close>

theorem weekly_window:
  "(let w = getWeekRangeEndingOn d in
      getDay (rangeStart w) = 1 \<and>
      getTime (rangeStart w) \<le> getTime d \<and> getTime d \<le> getTime (rangeEnd w) \<and>
      daysInclusive (rangeStart w) (rangeEnd w) = 7) \<and>
   (\<not> legacyYear (getFullYear now) \<longrightarrow>
      (let end = cloneDate now; start = weekStartMonday end in
         getDay start = 1 \<and>
         getTime start \<le> getTime now \<and> getTime now \<le> getTime end \<and>
         (daysInclusive start end = 7 \<longleftrightarrow> isSunday now)))"
proof (intro conjI impI)
  show "let w = getWeekRangeEndingOn d in
      getDay (rangeStart w) = 1 \<and>
      getTime (rangeStart w) \<le> getTime d \<and> getTime d \<le> getTime (rangeEnd w) \<and>
      daysInclusive (rangeStart w) (rangeEnd w) = 7"
    using monday_index_range [of d]
    by (simp add: getWeekRangeEndingOn_eq Let_def monday_start_day getTime_le daysInclusive_eq)
next
  assume "\<not> legacyYear (getFullYear now)"
  then have c: "cloneDate now = now" by (rule cloneDate_id)
  show "let end = cloneDate now; start = weekStartMonday end in
         getDay start = 1 \<and>
         getTime start \<le> getTime now \<and> getTime now \<le> getTime end \<and>
         (daysInclusive start end = 7 \<longleftrightarrow> isSunday now)"
    using monday_index_range [of now] monday_index_six [of now]
    by (simp add: c weekStartMonday_eq Let_def monday_start_day getTime_le daysInclusive_eq
        isSunday_def)
qed

text \<open>
  On Wednesday 2024-01-03 the pair of \<^verbatim>\<open>buildWeeklyReport\<close> runs from Monday 2024-01-01
  to that Wednesday: three days, not seven.
\<close>

theorem weekly_window_counterexample:
  "isoLocal 19725 = ''2024-01-03'' \<and> getDay 19725 = 3 \<and>
   isoLocal (weekStartMonday (cloneDate 19725)) = ''2024-01-01'' \<and>
   isoLocal (cloneDate 19725) = ''2024-01-03'' \<and>
   daysInclusive (weekStartMonday (cloneDate 19725)) (cloneDate 19725) = 3"
  by code_simp

theorem weekly_window_witness:
  "\<not> legacyYear (getFullYear 19722) \<and> isSunday 19722 \<and>
   isoLocal (weekStartMonday (cloneDate 19722)) = ''2023-12-25'' \<and>
   isoLocal (cloneDate 19722) = ''2023-12-31'' \<and>
   daysInclusive (weekStartMonday (cloneDate 19722)) (cloneDate 19722) = 7 \<and>
   getDay (weekStartMonday (cloneDate 19722)) = 1"
proof -
  have h: "\<not> legacyYear (getFullYear 19722)" by code_simp
  have s: "isSunday 19722" by code_simp
  have i: "isoLocal (weekStartMonday (cloneDate 19722)) = ''2023-12-25''"
     "isoLocal (cloneDate 19722) = ''2023-12-31''" by code_simp+
  show ?thesis
    using weekly_window [of 19722 19722] h s i by (simp add: Let_def)
qed

section \<open>The end of a month\<close>

text \<open>
  Claim C6. \<^verbatim>\<open>isMonthEnd\<close>, in both scripts, holds of a date exactly when its day of the
  month is the number of days of its month: 29 for a February in a leap year, 28 for any
  other February, 30 for April, June, September and November, 31 otherwise. Year 0 is set
  aside: the Date constructor reads it as 1900, which is not a leap year while year 0 is.
\<close>

theorem month_end_iff:
  assumes "getFullYear d \<noteq> 0"
  shows "(isMonthEnd d \<longleftrightarrow> getDate d = daysInMonth (getFullYear d) (getMonth d)) \<and>
         (isMonthEnd_tracker d \<longleftrightarrow> getDate d = daysInMonth (getFullYear d) (getMonth d))"
  unfolding isMonthEnd_def lastDayOfMonth_def isMonthEnd_tracker_def
  by (simp add: last_day_of_month [OF assms] Let_def)

theorem month_end_iff_witness:
  "getFullYear 19782 \<noteq> 0 \<and> isoLocal 19782 = ''2024-02-29'' \<and>
   isMonthEnd 19782 \<and> isMonthEnd_tracker 19782 \<and>
   daysInMonth (getFullYear 19782) (getMonth 19782) = 29 \<and>
   isoLocal 19781 = ''2024-02-28'' \<and> \<not> isMonthEnd 19781 \<and>
   isoLocal 19416 = ''2023-02-28'' \<and> isMonthEnd 19416 \<and>
   isoLocal 19843 = ''2024-04-30'' \<and> isMonthEnd 19843 \<and>
   isoLocal 19753 = ''2024-01-31'' \<and> isMonthEnd 19753"
proof -
  have h: "getFullYear 19782 \<noteq> 0" by code_simp
  have i: "isoLocal 19782 = ''2024-02-29''" by code_simp
  have d: "getDate 19782 = 29" by code_simp
  have m: "daysInMonth (getFullYear 19782) (getMonth 19782) = 29" by code_simp
  have o: "isoLocal 19781 = ''2024-02-28'' \<and> \<not> isMonthEnd 19781 \<and>
           isoLocal 19416 = ''2023-02-28'' \<and> isMonthEnd 19416 \<and>
           isoLocal 19843 = ''2024-04-30'' \<and> isMonthEnd 19843 \<and>
           isoLocal 19753 = ''2024-01-31'' \<and> isMonthEnd 19753"
    by code_simp
  show ?thesis
    using month_end_iff [OF h] h i d m o by simp
qed

section \<open>Reading a range of days\<close>

lemma rangeLoop_eq: "rangeLoop store cur end rows = rows @ map (rowFor store) [cur..end]"
proof (induction store cur "end" rows rule: rangeLoop.induct)
  case (1 store cur "end" rows)
  show ?case
  proof (cases "getTime cur \<le> getTime end")
    case True
    then have le: "cur \<le> end" by (simp add: getTime_le)
    have "rangeLoop store cur end rows =
            rangeLoop store (cur + 1) end (rows @ [rowFor store cur])"
      using True by (subst rangeLoop.simps) (simp add: Let_def setDate_shift rowFor_def)
    also have "\<dots> = (rows @ [rowFor store cur]) @ map (rowFor store) [cur + 1..end]"
      using "1.IH" [OF True refl refl] by (simp add: setDate_shift rowFor_def)
    also have "\<dots> = rows @ map (rowFor store) [cur..end]"
      using upto_rec1 [OF le] by simp
    finally show ?thesis .
  next
    case False
    then have "end < cur" by (simp add: getTime_le)
    then show ?thesis
      using False by (subst rangeLoop.simps) simp
  qed
qed

lemma getRatingsInRange_eq:
  assumes "\<not> legacyYear (getFullYear startDate)" "\<not> legacyYear (getFullYear endDate)"
  shows "getRatingsInRange startDate endDate s =
           (map (rowFor (readJson (ratingsItem s) Map.empty)) [startDate..endDate], s)"
  unfolding getRatingsInRange_def
  by (simp add: Let_def cloneDate_id [OF assms(1)] cloneDate_id [OF assms(2)] rangeLoop_eq)

lemma getRatingsInRange_state: "snd (getRatingsInRange startDate endDate s) = s"
  unfolding getRatingsInRange_def by (simp add: Let_def)

lemma listEntriesInRange_set:
  "set (map entryDate (listEntriesInRange tstore startDate endDate)) =
     {k \<in> fst ` set (entries tstore). toISODate startDate \<le> k \<and> k \<le> toISODate endDate}"
proof -
  have "map entryDate (map (\<lambda>iso. \<lparr>entryDate = iso, data = f iso\<rparr>) ks) = ks"
    for f :: "string \<Rightarrow> dayObj" and ks
    by (simp add: comp_def)
  then have "set (map entryDate (listEntriesInRange tstore startDate endDate)) =
      set (filter (\<lambda>iso. toISODate startDate \<le> iso \<and> iso \<le> toISODate endDate)
             (map fst (entries tstore)))"
    unfolding listEntriesInRange_def Let_def by (simp add: image_image)
  also have "\<dots> = {k \<in> fst ` set (entries tstore).
                        toISODate startDate \<le> k \<and> k \<le> toISODate endDate}"
    by (simp only: set_filter set_map)
  finally show ?thesis .
qed

lemma listEntriesInRange_sorted:
  "sorted (map entryDate (listEntriesInRange tstore startDate endDate))"
  unfolding listEntriesInRange_def Let_def by (rule sorted_sort_key)

lemma listEntriesInRange_data:
  assumes "r \<in> set (listEntriesInRange tstore startDate endDate)"
  shows "map_of (entries tstore) (entryDate r) = Some (data r)"
proof -
  define f where "f = (\<lambda>iso. \<lparr>entryDate = iso,
      data = (case map_of (entries tstore) iso of None \<Rightarrow> Map.empty | Some obj \<Rightarrow> obj)\<rparr>)"
  have "r \<in> f ` set (filter (\<lambda>iso. toISODate startDate \<le> iso \<and> iso \<le> toISODate endDate)
                        (map fst (entries tstore)))"
    using assms unfolding listEntriesInRange_def Let_def f_def [symmetric] by simp
  then obtain iso where iso: "iso \<in> fst ` set (entries tstore)" and r: "r = f iso"
    by auto
  from iso have "map_of (entries tstore) iso \<noteq> None"
    by (simp add: map_of_eq_None_iff)
  then obtain v where "map_of (entries tstore) iso = Some v"
    by blast
  then show ?thesis by (simp add: r f_def)
qed

lemma Day_midnight: "Day (D * msPerDay) = D"
  unfolding Day_def msPerDay_def by simp

lemma TimeWithinDay_midnight: "TimeWithinDay (D * msPerDay) = 0"
  unfolding TimeWithinDay_def msPerDay_def by simp

lemma isoLocal_tz_eq: "isoLocal_tz Z tv = isoLocal (localDay Z tv)"
  unfolding isoLocal_tz_def isoLocal_def getFullYear_tz_def getMonth_tz_def getDate_tz_def
    getFullYear_def getMonth_def getDate_def localDay_def
  by simp

lemma cloneDate_tz_eq:
  assumes "\<not> legacyYear (getFullYear (localDay Z tv))"
  shows "cloneDate_tz Z tv = UTC_of Z (localDay Z tv * msPerDay)"
proof -
  have "cloneDate (localDay Z tv) = localDay Z tv"
    using assms by (rule cloneDate_id)
  then show ?thesis
    unfolding cloneDate_tz_def newDate_tz_def cloneDate_def newDate_def getFullYear_tz_def
      getMonth_tz_def getDate_tz_def getFullYear_def getMonth_def getDate_def localDay_def
    by simp
qed

lemma midnights_mono_nat:
  assumes "\<forall>D \<in> set [a..b]. midnightsAscend Z D" and "a \<le> x"
  shows "x + int n \<le> b + 1 \<Longrightarrow> UTC_of Z (x * msPerDay) \<le> UTC_of Z ((x + int n) * msPerDay)"
proof (induction n)
  case 0
  show ?case by simp
next
  case (Suc n)
  then have le: "UTC_of Z (x * msPerDay) \<le> UTC_of Z ((x + int n) * msPerDay)"
    by simp
  have "x + int n \<in> set [a..b]"
    using assms(2) Suc.prems by simp
  then have "midnightsAscend Z (x + int n)"
    using assms(1) by blast
  then have "UTC_of Z ((x + int n) * msPerDay) < UTC_of Z ((x + int n + 1) * msPerDay)"
    by (simp only: midnightsAscend_def)
  moreover have "x + int (Suc n) = x + int n + 1"
    by simp
  ultimately show ?case
    using le by (simp only:)
qed

lemma midnights_mono:
  assumes "\<forall>D \<in> set [a..b]. midnightsAscend Z D" and "a \<le> x" and "x \<le> y" and "y \<le> b + 1"
  shows "UTC_of Z (x * msPerDay) \<le> UTC_of Z (y * msPerDay)"
  using midnights_mono_nat [OF assms(1,2), of "nat (y - x)"] assms(3,4) by simp

lemma rangeLoop_tz_eq:
  assumes H: "\<forall>D \<in> set [a..b]. midnightExists Z D \<and> midnightsAscend Z D" and ab: "a \<le> b"
  shows "a \<le> c \<Longrightarrow> c \<le> b + 1 \<Longrightarrow>
         rangeLoop_tz Z store (UTC_of Z (c * msPerDay)) (UTC_of Z (b * msPerDay)) rows
           = Some (rows @ map (rowFor store) [c..b])"
proof (induction "nat (b + 1 - c)" arbitrary: c rows)
  case 0
  then have c: "c = b + 1" by simp
  have "b \<in> set [a..b]" using ab by simp
  then have "midnightsAscend Z b" using H by blast
  then have "\<not> UTC_of Z ((b + 1) * msPerDay) \<le> UTC_of Z (b * msPerDay)"
    by (simp add: midnightsAscend_def)
  then show ?case
    unfolding c by (subst rangeLoop_tz.simps) (simp add: getTime_tz_def)
next
  case (Suc n)
  then have cb: "c \<le> b" and n: "n = nat (b + 1 - (c + 1))"
    by simp_all
  have asc: "\<forall>D \<in> set [a..b]. midnightsAscend Z D"
    using H by blast
  have "c \<in> set [a..b]" using Suc.prems cb by simp
  then have "midnightExists Z c" using H by blast
  then have lt: "LocalTime Z (UTC_of Z (c * msPerDay)) = c * msPerDay"
    by (simp only: midnightExists_def)
  have ld: "localDay Z (UTC_of Z (c * msPerDay)) = c"
    unfolding localDay_def lt by (rule Day_midnight)
  have le: "UTC_of Z (c * msPerDay) \<le> UTC_of Z (b * msPerDay)"
    using midnights_mono [OF asc Suc.prems(1) cb] by simp
  have iso: "isoLocal_tz Z (UTC_of Z (c * msPerDay)) = isoLocal c"
    by (simp add: isoLocal_tz_eq ld)
  have gd: "getDate_tz Z (UTC_of Z (c * msPerDay)) = getDate c"
    unfolding getDate_tz_def getDate_def lt by (simp add: Day_midnight)
  have sd: "setDate_tz Z (UTC_of Z (c * msPerDay)) (getDate c + 1) = UTC_of Z ((c + 1) * msPerDay)"
    unfolding setDate_tz_def Let_def lt
    by (simp add: Day_midnight TimeWithinDay_midnight MakeDay_same_month getDate_def)
  have "rangeLoop_tz Z store (UTC_of Z (c * msPerDay)) (UTC_of Z (b * msPerDay)) rows
          = rangeLoop_tz Z store (UTC_of Z ((c + 1) * msPerDay)) (UTC_of Z (b * msPerDay))
              (rows @ [rowFor store c])"
    using le by (subst rangeLoop_tz.simps) (simp add: getTime_tz_def iso gd sd rowFor_def)
  also have "\<dots> = Some ((rows @ [rowFor store c]) @ map (rowFor store) [c + 1..b])"
    using Suc.hyps(1) [OF n] Suc.prems cb by simp
  also have "\<dots> = Some (rows @ map (rowFor store) [c..b])"
    using upto_rec1 [OF cb] by simp
  finally show ?case .
qed

lemma getRatingsInRange_tz_eq:
  assumes "\<not> legacyYear (getFullYear (localDay Z startDate))"
    and "\<not> legacyYear (getFullYear (localDay Z endDate))"
    and "localDay Z startDate \<le> localDay Z endDate"
    and "\<forall>D \<in> set [localDay Z startDate..localDay Z endDate].
           midnightExists Z D \<and> midnightsAscend Z D"
  shows "getRatingsInRange_tz Z startDate endDate s =
           (Some (map (rowFor (readJson (ratingsItem s) Map.empty))
                    [localDay Z startDate..localDay Z endDate]), s)"
proof -
  have "localDay Z startDate \<le> localDay Z endDate + 1"
    using assms(3) by simp
  note loop = rangeLoop_tz_eq [OF assms(4,3) order_refl this]
  show ?thesis
    unfolding getRatingsInRange_tz_def Let_def
    by (simp add: cloneDate_tz_eq [OF assms(1)] cloneDate_tz_eq [OF assms(2)] loop)
qed

lemma rowFor_fields:
  "date (rowFor store D) = isoLocal D" "vals (rowFor store D) = dayRecord store (isoLocal D)"
  by (simp_all add: rowFor_def dayRecord_def)

lemma getRatingsInRange_day_level:
  assumes "\<not> legacyYear (getFullYear (localDay Z startDate))"
    and "\<not> legacyYear (getFullYear (localDay Z endDate))"
    and "localDay Z startDate \<le> localDay Z endDate"
    and "\<forall>D \<in> set [localDay Z startDate..localDay Z endDate].
           midnightExists Z D \<and> midnightsAscend Z D"
  shows "getRatingsInRange_tz Z startDate endDate s =
           (Some (fst (getRatingsInRange (localDay Z startDate) (localDay Z endDate) s)), s)"
  using getRatingsInRange_tz_eq [OF assms, of s] getRatingsInRange_eq [OF assms(1,2), of s]
  by simp

text \<open>
  Claim C7. Take two Dates whose local days \<open>a \<le> b\<close> have years outside 0 to 99 (where
  \<^verbatim>\<open>cloneDate\<close> is the identity), in a zone in which the local midnight of every day from
  \<open>a\<close> to \<open>b\<close> exists and the midnights ascend. Then \<^verbatim>\<open>getRatingsInRange\<close> ends and
  returns one row for every day from \<open>a\<close> to \<open>b\<close>, in that order: \<open>b - a + 1\<close> rows, each
  with the day's ISO date and the day's stored record, or the empty object when nothing is
  stored for the day; the state is returned unchanged. Nothing is said of a range with a
  skipped local midnight. The tracker's \<^verbatim>\<open>listEntriesInRange\<close> returns rows for the stored
  keys between the two ISO dates only, each with its stored record, and no row for a day
  without one; the rows are sorted by key when the keys are of the form \<^verbatim>\<open>YYYY-MM-DD\<close>.
\<close>

theorem range_read:
  "(let a = localDay Z startDate; b = localDay Z endDate;
        store = readJson (ratingsItem s) Map.empty
    in \<not> legacyYear (getFullYear a) \<and> \<not> legacyYear (getFullYear b) \<and> a \<le> b \<and>
       (\<forall>D \<in> set [a..b]. midnightExists Z D \<and> midnightsAscend Z D) \<longrightarrow>
         getRatingsInRange_tz Z startDate endDate s = (Some (map (rowFor store) [a..b]), s) \<and>
         int (length (map (rowFor store) [a..b])) = b - a + 1 \<and>
         map date (map (rowFor store) [a..b]) = map isoLocal [a..b] \<and>
         (\<forall>D \<in> set [a..b]. vals (rowFor store D) = dayRecord store (isoLocal D))) \<and>
   (let found = listEntriesInRange tstore d1 d2
    in set (map entryDate found) =
         {k \<in> fst ` set (entries tstore). toISODate d1 \<le> k \<and> k \<le> toISODate d2} \<and>
       (\<forall>r \<in> set found. map_of (entries tstore) (entryDate r) = Some (data r)) \<and>
       ((\<forall>k \<in> fst ` set (entries tstore). isDateKey k) \<longrightarrow> sorted (map entryDate found)))"
proof (intro conjI)
  show "let a = localDay Z startDate; b = localDay Z endDate;
        store = readJson (ratingsItem s) Map.empty
    in \<not> legacyYear (getFullYear a) \<and> \<not> legacyYear (getFullYear b) \<and> a \<le> b \<and>
       (\<forall>D \<in> set [a..b]. midnightExists Z D \<and> midnightsAscend Z D) \<longrightarrow>
         getRatingsInRange_tz Z startDate endDate s = (Some (map (rowFor store) [a..b]), s) \<and>
         int (length (map (rowFor store) [a..b])) = b - a + 1 \<and>
         map date (map (rowFor store) [a..b]) = map isoLocal [a..b] \<and>
         (\<forall>D \<in> set [a..b]. vals (rowFor store D) = dayRecord store (isoLocal D))"
    unfolding Let_def
  proof (intro impI conjI ballI)
    assume h: "\<not> legacyYear (getFullYear (localDay Z startDate)) \<and>
      \<not> legacyYear (getFullYear (localDay Z endDate)) \<and>
      localDay Z startDate \<le> localDay Z endDate \<and>
      (\<forall>D \<in> set [localDay Z startDate..localDay Z endDate].
          midnightExists Z D \<and> midnightsAscend Z D)"
    then show "getRatingsInRange_tz Z startDate endDate s =
           (Some (map (rowFor (readJson (ratingsItem s) Map.empty))
                    [localDay Z startDate..localDay Z endDate]), s)"
      by (intro getRatingsInRange_tz_eq) simp_all
    show "int (length (map (rowFor (readJson (ratingsItem s) Map.empty))
                        [localDay Z startDate..localDay Z endDate]))
            = localDay Z endDate - localDay Z startDate + 1"
      using h by simp
    show "map date (map (rowFor (readJson (ratingsItem s) Map.empty))
                      [localDay Z startDate..localDay Z endDate])
            = map isoLocal [localDay Z startDate..localDay Z endDate]"
      by (simp add: rowFor_fields comp_def)
  next
    fix D
    show "vals (rowFor (readJson (ratingsItem s) Map.empty) D)
            = dayRecord (readJson (ratingsItem s) Map.empty) (isoLocal D)"
      by (rule rowFor_fields)
  qed
next
  show "let found = listEntriesInRange tstore d1 d2
    in set (map entryDate found) =
         {k \<in> fst ` set (entries tstore). toISODate d1 \<le> k \<and> k \<le> toISODate d2} \<and>
       (\<forall>r \<in> set found. map_of (entries tstore) (entryDate r) = Some (data r)) \<and>
       ((\<forall>k \<in> fst ` set (entries tstore). isDateKey k) \<longrightarrow> sorted (map entryDate found))"
    unfolding Let_def
    by (intro conjI ballI impI listEntriesInRange_set listEntriesInRange_sorted
        listEntriesInRange_data)
qed

text \<open>
  Over the three days from 2024-01-01 to 2024-01-03, with ratings stored for 2024-01-02
  only, \<^verbatim>\<open>listEntriesInRange\<close> returns one row, not three.
\<close>

theorem range_read_counterexample:
  "toISODate 19723 = ''2024-01-01'' \<and> toISODate 19725 = ''2024-01-03'' \<and>
   daysInclusive 19723 19725 = 3 \<and>
   map entryDate (listEntriesInRange \<lparr>entries = example_one_day\<rparr> 19723 19725)
     = [''2024-01-02'']"
  by code_simp

text \<open>
  In the zone of Havana, from 10:00 on 2024-01-01 to 22:00 on 2024-01-03 and with ratings
  stored for 2024-01-02 only, \<^verbatim>\<open>getRatingsInRange\<close> returns three rows, the first and the
  last with empty values.
\<close>

theorem range_read_witness:
  "localDay havana (19723 * msPerDay + 54000000) = 19723 \<and>
   localDay havana (19725 * msPerDay + 97200000) = 19725 \<and>
   \<not> legacyYear (getFullYear 19723) \<and> \<not> legacyYear (getFullYear 19725) \<and>
   list_all (\<lambda>D. midnightExists havana D \<and> midnightsAscend havana D) [19723..19725] \<and>
   getRatingsInRange_tz havana (19723 * msPerDay + 54000000) (19725 * msPerDay + 97200000)
       example_one_day_browser
     = (Some [\<lparr>date = ''2024-01-01'', vals = Map.empty\<rparr>,
              \<lparr>date = ''2024-01-02'', vals = [''a'' \<mapsto> JNum 5]\<rparr>,
              \<lparr>date = ''2024-01-03'', vals = Map.empty\<rparr>], example_one_day_browser) \<and>
   isDateKey ''2024-01-02'' \<and>
   sorted (map entryDate (listEntriesInRange \<lparr>entries = example_one_day\<rparr> 19723 19725))"
proof -
  let ?t1 = "19723 * msPerDay + 54000000" and ?t2 = "19725 * msPerDay + 97200000"
  have a: "localDay havana ?t1 = 19723" and b: "localDay havana ?t2 = 19725"
    by code_simp+
  have y: "\<not> legacyYear (getFullYear 19723)" "\<not> legacyYear (getFullYear 19725)"
    by code_simp+
  have m: "list_all (\<lambda>D. midnightExists havana D \<and> midnightsAscend havana D) [19723..19725]"
    by code_simp
  then have m': "\<forall>D \<in> set [19723..19725]. midnightExists havana D \<and> midnightsAscend havana D"
    by (simp only: list_all_iff)
  have k: "isDateKey ''2024-01-02''"
    by code_simp
  then have k': "\<forall>k \<in> fst ` set (entries \<lparr>entries = example_one_day\<rparr>). isDateKey k"
    by (simp add: example_one_day_def)
  have i: "isoLocal 19723 = ''2024-01-01''" "isoLocal 19724 = ''2024-01-02''"
    "isoLocal 19725 = ''2024-01-03''"
    by code_simp+
  have u: "[19723..19725] = [19723, 19724, 19725 :: int]"
    by code_simp
  have st: "readJson (ratingsItem example_one_day_browser) Map.empty = map_of example_one_day"
    by (simp add: example_one_day_browser_def readJson_def)
  have rows: "map (rowFor (map_of example_one_day)) [19723..19725] =
      [\<lparr>date = ''2024-01-01'', vals = Map.empty\<rparr>,
       \<lparr>date = ''2024-01-02'', vals = [''a'' \<mapsto> JNum 5]\<rparr>,
       \<lparr>date = ''2024-01-03'', vals = Map.empty\<rparr>]"
    unfolding u by (simp add: rowFor_def i example_one_day_def)
  note t = range_read [where Z = havana and startDate = ?t1 and endDate = ?t2
      and s = example_one_day_browser and tstore = "\<lparr>entries = example_one_day\<rparr>"
      and ?d1.0 = 19723 and ?d2.0 = 19725, unfolded Let_def a b st]
  have g: "getRatingsInRange_tz havana ?t1 ?t2 example_one_day_browser =
      (Some (map (rowFor (map_of example_one_day)) [19723..19725]), example_one_day_browser)"
    using t y m' by simp
  have srt: "sorted (map entryDate (listEntriesInRange \<lparr>entries = example_one_day\<rparr> 19723 19725))"
    using t k' by blast
  show ?thesis
    using a b y m k srt g unfolding rows by simp
qed

text \<open>
  Where a local midnight is skipped the loop behaves otherwise. In the zone of Havana,
  from 10:00 on 2024-03-09 to 10:00 on 2024-03-11, midnight of 2024-03-10 does not exist:
  \<open>cur\<close> stays at 01:00 from that day on, passes \<open>end\<close> (midnight of 2024-03-11) one day
  early, and the loop returns two rows for the three days.
\<close>

lemma getRatingsInRange_midnight_gap:
  "localDay havana (19791 * msPerDay + 18000000 + 36000000) = 19791 \<and>
   localDay havana (19793 * msPerDay + 14400000 + 36000000) = 19793 \<and>
   isoLocal 19791 = ''2024-03-09'' \<and> isoLocal 19793 = ''2024-03-11'' \<and>
   \<not> midnightExists havana 19792 \<and>
   map_option (map date)
     (fst (getRatingsInRange_tz havana (19791 * msPerDay + 18000000 + 36000000)
             (19793 * msPerDay + 14400000 + 36000000) fresh_browser))
     = Some [''2024-03-09'', ''2024-03-10'']"
  by code_simp

section \<open>The due reports and the ledger\<close>

lemma alreadySent_state: "snd (alreadySent rt pid s) = s"
  unfolding alreadySent_def by (simp add: Let_def)

lemma buildPlainTextReport_state: "snd (buildPlainTextReport P cats title a b s) = s"
  unfolding buildPlainTextReport_def getRatingsInRange_def by (simp add: Let_def)

lemma buildWeeklyReport_state: "snd (buildWeeklyReport P cats now s) = s"
  unfolding buildWeeklyReport_def
  using buildPlainTextReport_state [of P cats _ _ _ s]
  by (simp add: Let_def split_beta)

lemma buildMonthlyReport_state: "snd (buildMonthlyReport P cats now s) = s"
  unfolding buildMonthlyReport_def
  using buildPlainTextReport_state [of P cats _ _ _ s]
  by (simp add: Let_def split_beta)

lemma buildYearlyReport_state: "snd (buildYearlyReport P cats now s) = s"
  unfolding buildYearlyReport_def
  using buildPlainTextReport_state [of P cats _ _ _ s]
  by (simp add: Let_def split_beta)

lemma filterUnsent_eq:
  "filterUnsent rs s = (filter (\<lambda>r. \<not> fst (alreadySent (rtype r) (periodId r) s)) rs, s)"
proof (induction rs)
  case Nil
  show ?case by simp
next
  case (Cons r rs)
  have a: "alreadySent (rtype r) (periodId r) s = (fst (alreadySent (rtype r) (periodId r) s), s)"
    using alreadySent_state [of "rtype r" "periodId r" s] by (simp add: prod_eq_iff)
  show ?case
    by (subst filterUnsent.simps, subst a) (simp add: Cons.IH Let_def)
qed

lemma getDueReports_eq:
  "getDueReports P cats now s =
     (filter (\<lambda>r. \<not> fst (alreadySent (rtype r) (periodId r) s)) (candidates P cats now s), s)"
  unfolding getDueReports_def candidates_def Let_def
  by (cases "isSunday now"; cases "isMonthEnd now"; cases "isYearEnd now")
     (simp_all add: split_beta buildWeeklyReport_state buildMonthlyReport_state
        buildYearlyReport_state filterUnsent_eq)

lemma markSent_twice: "markSent t2 rt pid (markSent t1 rt pid s) = markSent t2 rt pid s"
  unfolding markSent_def readJson_def by (simp add: Let_def)

lemma alreadySent_markSent_same:
  "stamp \<noteq> [] \<Longrightarrow> fst (alreadySent rt pid (markSent stamp rt pid s))"
  unfolding alreadySent_def markSent_def readJson_def by (simp add: Let_def)

lemma alreadySent_markSent_keeps:
  "fst (alreadySent rt pid s) \<Longrightarrow> stamp \<noteq> [] \<Longrightarrow>
   fst (alreadySent rt pid (markSent stamp rt' pid' s))"
  unfolding alreadySent_def markSent_def readJson_def
  by (auto simp add: Let_def split: option.splits)

lemma markSent_ratings: "ratingsItem (markSent stamp rt pid s) = ratingsItem s"
  unfolding markSent_def by (simp add: Let_def)

lemma getRatingsInRange_ratings:
  "ratingsItem s' = ratingsItem s \<Longrightarrow>
   fst (getRatingsInRange a b s') = fst (getRatingsInRange a b s)"
  unfolding getRatingsInRange_def by (simp add: Let_def)

lemma buildPlainTextReport_ratings:
  assumes "ratingsItem s' = ratingsItem s"
  shows "fst (buildPlainTextReport P cats title a b s') = fst (buildPlainTextReport P cats title a b s)"
  unfolding buildPlainTextReport_def
  using getRatingsInRange_ratings [OF assms, of a b]
  by (simp add: Let_def split_beta)

lemma candidates_ratings:
  assumes "ratingsItem s' = ratingsItem s"
  shows "candidates P cats now s' = candidates P cats now s"
  unfolding candidates_def buildWeeklyReport_def buildMonthlyReport_def buildYearlyReport_def
  by (simp add: Let_def split_beta buildPlainTextReport_ratings [OF assms])

lemma rtype_weekly: "rtype (fst (buildWeeklyReport P cats now s)) = ''weekly''"
  unfolding buildWeeklyReport_def by (simp add: Let_def split_beta)

lemma rtype_monthly: "rtype (fst (buildMonthlyReport P cats now s)) = ''monthly''"
  unfolding buildMonthlyReport_def by (simp add: Let_def split_beta)

lemma rtype_yearly: "rtype (fst (buildYearlyReport P cats now s)) = ''yearly''"
  unfolding buildYearlyReport_def by (simp add: Let_def split_beta)

lemma periodId_weekly:
  "periodId (fst (buildWeeklyReport P cats now s)) =
     isoLocal (weekStartMonday (cloneDate now)) @ ''_'' @ isoLocal (cloneDate now)"
  unfolding buildWeeklyReport_def by (simp add: Let_def split_beta)

lemma periodId_monthly:
  "periodId (fst (buildMonthlyReport P cats now s)) = take 7 (isoLocal (monthStart now))"
  unfolding buildMonthlyReport_def by (simp add: Let_def split_beta)

lemma periodId_yearly:
  "periodId (fst (buildYearlyReport P cats now s)) = showInt (getFullYear now)"
  unfolding buildYearlyReport_def by (simp add: Let_def split_beta)

text \<open>
  Claim C1. On a day that is a Sunday, the last day of its month and December 31, and
  with none of the three periods marked in the ledger yet, \<^verbatim>\<open>getDueReports\<close> returns exactly
  three distinct reports, in the order weekly, monthly, yearly; after \<^verbatim>\<open>markSent\<close> for the
  type and period id of each of the three, \<^verbatim>\<open>getDueReports\<close> for the same day returns the
  empty list.
\<close>

theorem exactly_once:
  assumes "isSunday now \<and> isMonthEnd now \<and> isYearEnd now"
    and "\<not> fst (alreadySent ''weekly'' (periodId (fst (buildWeeklyReport P cats now s))) s)"
    and "\<not> fst (alreadySent ''monthly'' (periodId (fst (buildMonthlyReport P cats now s))) s)"
    and "\<not> fst (alreadySent ''yearly'' (periodId (fst (buildYearlyReport P cats now s))) s)"
    and "t1 \<noteq> [] \<and> t2 \<noteq> [] \<and> t3 \<noteq> []"
  shows "(let due = fst (getDueReports P cats now s) in
           due = [fst (buildWeeklyReport P cats now s), fst (buildMonthlyReport P cats now s),
                  fst (buildYearlyReport P cats now s)] \<and>
           map rtype due = [''weekly'', ''monthly'', ''yearly''] \<and>
           distinct due \<and>
           (let s1 = markSent t1 (rtype (due ! 0)) (periodId (due ! 0)) s;
                s2 = markSent t2 (rtype (due ! 1)) (periodId (due ! 1)) s1;
                s3 = markSent t3 (rtype (due ! 2)) (periodId (due ! 2)) s2
            in fst (getDueReports P cats now s3) = []))"
proof -
  let ?w = "fst (buildWeeklyReport P cats now s)"
  let ?m = "fst (buildMonthlyReport P cats now s)"
  let ?y = "fst (buildYearlyReport P cats now s)"
  have c: "candidates P cats now s = [?w, ?m, ?y]"
    using assms(1) by (simp add: candidates_def)
  have due: "fst (getDueReports P cats now s) = [?w, ?m, ?y]"
    using assms(2-4) by (simp add: getDueReports_eq c rtype_weekly rtype_monthly rtype_yearly)
  have types: "map rtype [?w, ?m, ?y] = [''weekly'', ''monthly'', ''yearly'']"
    by (simp add: rtype_weekly rtype_monthly rtype_yearly)
  have "rtype ?w \<noteq> rtype ?m" "rtype ?w \<noteq> rtype ?y" "rtype ?m \<noteq> rtype ?y"
    by (simp_all add: rtype_weekly rtype_monthly rtype_yearly)
  then have dist: "distinct [?w, ?m, ?y]"
    by auto
  define s1 where "s1 = markSent t1 (rtype ?w) (periodId ?w) s"
  define s2 where "s2 = markSent t2 (rtype ?m) (periodId ?m) s1"
  define s3 where "s3 = markSent t3 (rtype ?y) (periodId ?y) s2"
  have r: "ratingsItem s3 = ratingsItem s"
    by (simp add: s3_def s2_def s1_def markSent_ratings)
  have sw: "fst (alreadySent (rtype ?w) (periodId ?w) s3)"
    unfolding s3_def s2_def
    using assms(5) by (intro alreadySent_markSent_keeps) (simp_all add: s1_def alreadySent_markSent_same)
  have sm: "fst (alreadySent (rtype ?m) (periodId ?m) s3)"
    unfolding s3_def
    using assms(5) by (intro alreadySent_markSent_keeps) (simp_all add: s2_def alreadySent_markSent_same)
  have sy: "fst (alreadySent (rtype ?y) (periodId ?y) s3)"
    using assms(5) by (simp add: s3_def alreadySent_markSent_same)
  have after: "fst (getDueReports P cats now s3) = []"
    by (simp add: getDueReports_eq candidates_ratings [OF r] c sw sm sy)
  show ?thesis
    unfolding Let_def due
    using types dist after by (simp add: s1_def s2_def s3_def)
qed

theorem exactly_once_witness:
  "isSunday 19722 \<and> isMonthEnd 19722 \<and> isYearEnd 19722 \<and>
   isoLocal 19722 = ''2023-12-31'' \<and>
   (let due = fst (getDueReports example_platform CATEGORIES 19722 fresh_browser) in
      map rtype due = [''weekly'', ''monthly'', ''yearly''] \<and>
      map periodId due = [''2023-12-25_2023-12-31'', ''2023-12'', ''2023''] \<and>
      fst (getDueReports example_platform CATEGORIES 19722
            (markSent ''2023-12-31T18:30:00.000Z'' (rtype (due ! 2)) (periodId (due ! 2))
              (markSent ''2023-12-31T18:30:00.000Z'' (rtype (due ! 1)) (periodId (due ! 1))
                (markSent ''2023-12-31T18:30:00.000Z'' (rtype (due ! 0)) (periodId (due ! 0))
                  fresh_browser)))) = [])"
proof -
  have h: "isSunday 19722 \<and> isMonthEnd 19722 \<and> isYearEnd 19722"
    by code_simp
  have i: "isoLocal 19722 = ''2023-12-31''"
    by code_simp
  have u: "\<not> fst (alreadySent rt pid fresh_browser)" for rt pid
    by (simp add: alreadySent_def fresh_browser_def readJson_def)
  have t: "''2023-12-31T18:30:00.000Z'' \<noteq> [] \<and> ''2023-12-31T18:30:00.000Z'' \<noteq> [] \<and>
           ''2023-12-31T18:30:00.000Z'' \<noteq> []"
    by simp
  have w: "isoLocal (weekStartMonday (cloneDate 19722)) @ ''_'' @ isoLocal (cloneDate 19722)
             = ''2023-12-25_2023-12-31''"
    by code_simp
  have m: "take 7 (isoLocal (monthStart 19722)) = ''2023-12''"
    by code_simp
  have y: "showInt (getFullYear 19722) = ''2023''"
    by code_simp
  note e = exactly_once [OF h u u u t, of example_platform CATEGORIES, unfolded Let_def]
  have due: "fst (getDueReports example_platform CATEGORIES 19722 fresh_browser) =
      [fst (buildWeeklyReport example_platform CATEGORIES 19722 fresh_browser),
       fst (buildMonthlyReport example_platform CATEGORIES 19722 fresh_browser),
       fst (buildYearlyReport example_platform CATEGORIES 19722 fresh_browser)]"
    using e by (rule conjunct1)
  have ids: "map periodId (fst (getDueReports example_platform CATEGORIES 19722 fresh_browser))
      = [''2023-12-25_2023-12-31'', ''2023-12'', ''2023'']"
    unfolding due by (simp only: list.map periodId_weekly periodId_monthly periodId_yearly w m y)
  show ?thesis
    unfolding Let_def
    using h i ids e by blast
qed

text \<open>
  Claim C2. Two calls of \<^verbatim>\<open>markSent\<close> for the same type and period id leave the state
  that the second call alone would leave: they differ from one call only in the stored
  time. \<^verbatim>\<open>getDueReports\<close> returns the state it was given, and a second call returns the
  same list.
\<close>

theorem idempotence:
  "markSent t2 rt pid (markSent t1 rt pid s) = markSent t2 rt pid s \<and>
   (let (due, s') = getDueReports P cats now s
    in s' = s \<and> getDueReports P cats now s' = (due, s'))"
  by (simp add: markSent_twice getDueReports_eq)

section \<open>Saving a rating\<close>

text \<open>
  Claim C10. \<^verbatim>\<open>saveRatingForToday\<close> for a category key \<open>k\<close> and a value \<open>v\<close> changes
  today's record only: every other day's record is as before; in today's record the
  \<^verbatim>\<open>_updatedAt\<close> stamp is set, the score of \<open>k\<close> is \<open>v\<close> (for a category key, which is not
  \<^verbatim>\<open>_updatedAt\<close>), and every other property is as before. The ledger and the location are
  untouched.
\<close>

theorem save_frame:
  "(let s' = saveRatingForToday today stamp k v s;
        before = readJson (ratingsItem s) Map.empty;
        after = readJson (ratingsItem s') Map.empty;
        todayKey = isoLocal today
    in (\<forall>d. d \<noteq> todayKey \<longrightarrow> after d = before d) \<and>
       after todayKey \<noteq> None \<and>
       dayRecord after todayKey ''_updatedAt'' = Some (JStr stamp) \<and>
       (k \<noteq> ''_updatedAt'' \<longrightarrow> dayRecord after todayKey k = Some v) \<and>
       (\<forall>k'. k' \<noteq> k \<and> k' \<noteq> ''_updatedAt'' \<longrightarrow>
              dayRecord after todayKey k' = dayRecord before todayKey k') \<and>
       sentItem s' = sentItem s \<and> locationHref s' = locationHref s)"
  unfolding saveRatingForToday_def dayRecord_def readJson_def Let_def
  by (simp split: option.splits)

theorem save_frame_witness:
  "''a'' \<noteq> ''_updatedAt'' \<and> ''b'' \<noteq> ''a'' \<and> ''b'' \<noteq> ''_updatedAt'' \<and>
   ''2024-01-01'' \<noteq> isoLocal 19724 \<and>
   (let s' = saveRatingForToday 19724 ''2024-01-02T09:00:00.000Z'' ''a'' (JNum 4)
               example_two_days_browser;
        after = readJson (ratingsItem s') Map.empty
    in dayRecord after ''2024-01-02'' ''a'' = Some (JNum 4) \<and>
       dayRecord after ''2024-01-02'' ''b'' = Some (JNum 2) \<and>
       dayRecord after ''2024-01-02'' ''_updatedAt'' = Some (JStr ''2024-01-02T09:00:00.000Z'') \<and>
       dayRecord after ''2024-01-01'' ''a'' = Some (JNum 3))"
proof -
  have i: "isoLocal 19724 = ''2024-01-02''"
    by code_simp
  have b: "readJson (ratingsItem example_two_days_browser) Map.empty = map_of example_two_days"
    by (simp add: example_two_days_browser_def readJson_def)
  have old: "dayRecord (map_of example_two_days) ''2024-01-02'' ''b'' = Some (JNum 2)"
    "dayRecord (map_of example_two_days) ''2024-01-01'' ''a'' = Some (JNum 3)"
    by (simp_all add: dayRecord_def example_two_days_def)
  note t = save_frame [of 19724 "''2024-01-02T09:00:00.000Z''" "''a''" "JNum 4"
      example_two_days_browser, unfolded Let_def i b]
  have other: "readJson (ratingsItem (saveRatingForToday 19724 ''2024-01-02T09:00:00.000Z'' ''a''
      (JNum 4) example_two_days_browser)) Map.empty ''2024-01-01'' = map_of example_two_days ''2024-01-01''"
    using t by simp
  show ?thesis
    unfolding Let_def i
    using t old other by (simp add: dayRecord_def)
qed

section \<open>Sending a report\<close>

text \<open>
  Claim C9. In the mode \<^verbatim>\<open>api\<close>, \<^verbatim>\<open>sendReport\<close> marks the report as sent exactly when
  \<^verbatim>\<open>sendViaApi\<close> succeeds; when it fails (the request is rejected, or the response is not
  \<^verbatim>\<open>ok\<close>), the error goes to the caller and the state is unchanged. In any other mode
  (\<^verbatim>\<open>mailto\<close>), \<^verbatim>\<open>sendReport\<close> opens the draft and then marks the report as sent, whatever
  the network would answer.
\<close>

theorem send_marks:
  "(mailMode cfg = ''api'' \<longrightarrow>
      (case sendViaApi cfg fetch r of
         Inl e \<Rightarrow> sendReport P cfg fetch stamp (Some r) s = (Inl e, s)
       | Inr u \<Rightarrow> sendReport P cfg fetch stamp (Some r) s =
                   (Inr (), markSent stamp (rtype r) (periodId r) s))) \<and>
   (mailMode cfg \<noteq> ''api'' \<longrightarrow>
      sendReport P cfg fetch stamp (Some r) s =
        (Inr (), markSent stamp (rtype r) (periodId r)
                   (openMailtoDraft P (recipients cfg) (subject r) (body r) s))) \<and>
   (case fetch (apiEndpoint cfg)
           \<lparr>reqTo = recipients cfg, reqSubject = subject r, reqText = body r\<rparr> of
      FetchRejected e \<Rightarrow> sendViaApi cfg fetch r = Inl (Error e)
    | Response ok status txt \<Rightarrow>
        (if ok then sendViaApi cfg fetch r = Inr ()
         else (\<exists>e. sendViaApi cfg fetch r = Inl e)))"
proof (intro conjI impI)
  assume "mailMode cfg = ''api''"
  then show "case sendViaApi cfg fetch r of
         Inl e \<Rightarrow> sendReport P cfg fetch stamp (Some r) s = (Inl e, s)
       | Inr u \<Rightarrow> sendReport P cfg fetch stamp (Some r) s =
                   (Inr (), markSent stamp (rtype r) (periodId r) s)"
    unfolding sendReport_def by (simp split: sum.splits)
next
  assume "mailMode cfg \<noteq> ''api''"
  then show "sendReport P cfg fetch stamp (Some r) s =
        (Inr (), markSent stamp (rtype r) (periodId r)
                   (openMailtoDraft P (recipients cfg) (subject r) (body r) s))"
    unfolding sendReport_def by (simp add: Let_def)
next
  show "case fetch (apiEndpoint cfg)
           \<lparr>reqTo = recipients cfg, reqSubject = subject r, reqText = body r\<rparr> of
      FetchRejected e \<Rightarrow> sendViaApi cfg fetch r = Inl (Error e)
    | Response ok status txt \<Rightarrow>
        (if ok then sendViaApi cfg fetch r = Inr ()
         else (\<exists>e. sendViaApi cfg fetch r = Inl e))"
    unfolding sendViaApi_def by (simp split: fetchOutcome.splits sum.splits)
qed

theorem send_marks_witness:
  "mailMode (CONFIG\<lparr>mailMode := ''api''\<rparr>) = ''api'' \<and> mailMode CONFIG \<noteq> ''api'' \<and>
   sendReport example_platform (CONFIG\<lparr>mailMode := ''api''\<rparr>)
       (\<lambda>url req. Response False 500 (Inr ''down'')) ''2023-12-31T18:30:00.000Z''
       (Some example_report) fresh_browser
     = (Inl (Error ''API failed: 500 down''), fresh_browser) \<and>
   sendReport example_platform (CONFIG\<lparr>mailMode := ''api''\<rparr>)
       (\<lambda>url req. Response True 200 (Inr ''{}'')) ''2023-12-31T18:30:00.000Z''
       (Some example_report) fresh_browser
     = (Inr (), markSent ''2023-12-31T18:30:00.000Z'' ''weekly'' ''2023-12-25_2023-12-31''
                  fresh_browser) \<and>
   fst (alreadySent ''weekly'' ''2023-12-25_2023-12-31''
         (snd (sendReport example_platform CONFIG
                 (\<lambda>url req. FetchRejected ''offline'') ''2023-12-31T18:30:00.000Z''
                 (Some example_report) fresh_browser)))"
proof -
  have m: "mailMode (CONFIG\<lparr>mailMode := ''api''\<rparr>) = ''api''" "mailMode CONFIG \<noteq> ''api''"
    by (simp_all add: CONFIG_def)
  have n: "showNat 500 = ''500''"
    by code_simp
  have f: "sendViaApi (CONFIG\<lparr>mailMode := ''api''\<rparr>)
             (\<lambda>url req. Response False 500 (Inr ''down'')) example_report
           = Inl (Error ''API failed: 500 down'')"
    unfolding sendViaApi_def by (simp add: n)
  have g: "sendViaApi (CONFIG\<lparr>mailMode := ''api''\<rparr>)
             (\<lambda>url req. Response True 200 (Inr ''{}'')) example_report = Inr ()"
    unfolding sendViaApi_def by simp
  have r: "rtype example_report = ''weekly''" "periodId example_report = ''2023-12-25_2023-12-31''"
    by (simp_all add: example_report_def)
  have a: "sendReport example_platform (CONFIG\<lparr>mailMode := ''api''\<rparr>)
       (\<lambda>url req. Response False 500 (Inr ''down'')) ''2023-12-31T18:30:00.000Z''
       (Some example_report) fresh_browser
     = (Inl (Error ''API failed: 500 down''), fresh_browser)"
    using send_marks [where cfg = "CONFIG\<lparr>mailMode := ''api''\<rparr>"
        and fetch = "\<lambda>url req. Response False 500 (Inr ''down'')" and r = example_report
        and P = example_platform and stamp = "''2023-12-31T18:30:00.000Z''"
        and s = fresh_browser] m(1)
    by (simp add: f)
  have b: "sendReport example_platform (CONFIG\<lparr>mailMode := ''api''\<rparr>)
       (\<lambda>url req. Response True 200 (Inr ''{}'')) ''2023-12-31T18:30:00.000Z''
       (Some example_report) fresh_browser
     = (Inr (), markSent ''2023-12-31T18:30:00.000Z'' ''weekly'' ''2023-12-25_2023-12-31''
                  fresh_browser)"
    using send_marks [where cfg = "CONFIG\<lparr>mailMode := ''api''\<rparr>"
        and fetch = "\<lambda>url req. Response True 200 (Inr ''{}'')" and r = example_report
        and P = example_platform and stamp = "''2023-12-31T18:30:00.000Z''"
        and s = fresh_browser] m(1)
    by (simp add: g r)
  have c: "sendReport example_platform CONFIG
                 (\<lambda>url req. FetchRejected ''offline'') ''2023-12-31T18:30:00.000Z''
                 (Some example_report) fresh_browser
     = (Inr (), markSent ''2023-12-31T18:30:00.000Z'' ''weekly'' ''2023-12-25_2023-12-31''
          (openMailtoDraft example_platform (recipients CONFIG) (subject example_report)
             (body example_report) fresh_browser))"
    using send_marks [where cfg = CONFIG
        and fetch = "\<lambda>url req. FetchRejected ''offline''" and r = example_report
        and P = example_platform and stamp = "''2023-12-31T18:30:00.000Z''"
        and s = fresh_browser] m(2)
    by (simp add: r)
  have d: "fst (alreadySent ''weekly'' ''2023-12-25_2023-12-31''
         (snd (sendReport example_platform CONFIG
                 (\<lambda>url req. FetchRejected ''offline'') ''2023-12-31T18:30:00.000Z''
                 (Some example_report) fresh_browser)))"
    unfolding c by (simp add: alreadySent_markSent_same)
  show ?thesis
    using m a b d by simp
qed

section \<open>The two averaging policies\<close>

text \<open>
  Claim C4. With the categories \<open>a\<close> and \<open>b\<close> and the ratings
  \<^verbatim>\<open>{2024-01-01: {a: 3}, 2024-01-02: {a: 5, b: 2}}\<close> over the window from 2024-01-01 to
  2024-01-02, \<^verbatim>\<open>calcAverages\<close> gives \<open>a = 4\<close> and \<open>b = 2\<close>, and
  \<^verbatim>\<open>computeAveragesForEntries\<close> gives \<open>a = 5\<close> and \<open>b = 2\<close>: the two differ on \<open>a\<close>.
\<close>

theorem policies_diverge:
  "isoLocal 19723 = ''2024-01-01'' \<and> isoLocal 19724 = ''2024-01-02'' \<and>
   avg (calcAverages example_categories
          (fst (getRatingsInRange 19723 19724 example_two_days_browser)))
     = [(''a'', JNum 4), (''b'', JNum 2)] \<and>
   perCategory (computeAveragesForEntries P example_categories
                  (listEntriesInRange \<lparr>entries = example_two_days\<rparr> 19723 19724))
     = [(''a'', JNum 5), (''b'', JNum 2)]"
  by code_simp

section \<open>The overall average\<close>

text \<open>
  Claim C5. The overall value is the mean of the category averages that are present, and
  is \<^verbatim>\<open>null\<close> when none is. The code does otherwise: \<^verbatim>\<open>mean\<close> reads every entry through
  \<^verbatim>\<open>Number\<close>, and \<^verbatim>\<open>Number(null)\<close> is 0, so an absent average counts as a 0. With no
  complete day every average is \<^verbatim>\<open>null\<close> and the overall value is 0.
\<close>

theorem overall_of_no_data:
  "perCategory (computeAveragesForEntries P CATEGORIES [])
     = [(''consistency'', JNull), (''discipline'', JNull), (''determination'', JNull),
        (''interest'', JNull)] \<and>
   overall (computeAveragesForEntries P CATEGORIES []) = Some 0 \<and>
   mean P [JNum 3, JNull] = Some (3 / 2)"
  by code_simp

section \<open>Scores that are not valid\<close>

lemma addRating_invalid:
  "\<not> validScore (getProp (vals r) (key c)) \<Longrightarrow> addRating r c acc = acc"
  unfolding addRating_def validScore_def by (auto split: jsval.splits)

lemma addRating_withoutInvalid:
  "addRating (r\<lparr>vals := withoutInvalid (vals r)\<rparr>) c acc = addRating r c acc"
  unfolding addRating_def withoutInvalid_def getProp_def validScore_def
  by (simp split: option.splits jsval.splits)

lemma addRating_counts_keep:
  assumes "\<not> validScore (getProp (vals r) k)"
  shows "map_of (countsObj (addRating r c acc)) k = map_of (countsObj acc) k"
proof (cases "key c = k")
  case True
  then show ?thesis using assms by (simp add: addRating_invalid)
next
  case False
  then show ?thesis
    unfolding addRating_def by (simp add: update_conv' split: jsval.splits)
qed

lemma fold_addRating_counts_keep:
  assumes "\<not> validScore (getProp (vals r) k)"
  shows "map_of (countsObj (fold (addRating r) cats acc)) k = map_of (countsObj acc) k"
  by (induction cats arbitrary: acc) (simp_all add: addRating_counts_keep [OF assms])

lemma fold_rows_counts_keep:
  assumes "\<forall>r \<in> set rows. \<not> validScore (getProp (vals r) k)"
  shows "map_of (countsObj (fold (\<lambda>r acc. fold (addRating r) cats acc) rows acc)) k
           = map_of (countsObj acc) k"
  using assms by (induction rows arbitrary: acc) (simp_all add: fold_addRating_counts_keep)

lemma initAccum_counts_gen:
  "map_of (countsObj (fold (\<lambda>c acc. acc\<lparr>sumsObj := AList.update (key c) 0 (sumsObj acc),
                          countsObj := AList.update (key c) 0 (countsObj acc)\<rparr>) cats acc0)) k
     = (if k \<in> key ` set cats then Some 0 else map_of (countsObj acc0) k)"
  by (induction cats arbitrary: acc0) (auto simp add: update_conv')

lemma initAccum_counts:
  "c \<in> set cats \<Longrightarrow> map_of (countsObj (initAccum cats)) (key c) = Some 0"
  unfolding initAccum_def by (simp add: initAccum_counts_gen)

lemma fold_update_lookup:
  "map_of (fold (\<lambda>c a. AList.update (key c) (g (key c)) a) cats a0) k
     = (if k \<in> key ` set cats then Some (g k) else map_of a0 k)"
  by (induction cats arbitrary: a0) (auto simp add: update_conv')

lemma calcAverages_no_data:
  assumes "c \<in> set cats" and "\<forall>r \<in> set rows. \<not> validScore (getProp (vals r) (key c))"
  shows "map_of (avg (calcAverages cats rows)) (key c) = Some JNull \<and>
         map_of (counts (calcAverages cats rows)) (key c) = Some 0"
proof -
  define acc where "acc = fold (\<lambda>r acc. fold (addRating r) cats acc) rows (initAccum cats)"
  have cnt: "map_of (countsObj acc) (key c) = Some 0"
    unfolding acc_def
    by (simp add: fold_rows_counts_keep [OF assms(2)] initAccum_counts [OF assms(1)])
  then have z: "numProp (countsObj acc) (key c) = 0"
    by (simp add: numProp_def)
  define g where "g = (\<lambda>k. if numProp (countsObj acc) k \<noteq> 0
                     then JNum (numProp (sumsObj acc) k / of_nat (numProp (countsObj acc) k))
                     else JNull)"
  have a: "avg (calcAverages cats rows) =
      fold (\<lambda>c a. AList.update (key c) (g (key c)) a) cats []"
    unfolding calcAverages_def acc_def [symmetric] g_def by (simp add: Let_def)
  have "map_of (fold (\<lambda>c a. AList.update (key c) (g (key c)) a) cats []) (key c)
          = Some (g (key c))"
    using assms(1) by (simp only: fold_update_lookup) simp
  then have "map_of (avg (calcAverages cats rows)) (key c) = Some JNull"
    unfolding a by (simp add: g_def z)
  moreover have "counts (calcAverages cats rows) = countsObj acc"
    unfolding calcAverages_def acc_def [symmetric] by (simp add: Let_def)
  ultimately show ?thesis using cnt by simp
qed

lemma calcAverages_withoutInvalid:
  "calcAverages cats (map (\<lambda>r. r\<lparr>vals := withoutInvalid (vals r)\<rparr>) rows) = calcAverages cats rows"
proof -
  have "fold (\<lambda>r acc. fold (addRating r) cats acc)
          (map (\<lambda>r. r\<lparr>vals := withoutInvalid (vals r)\<rparr>) rows) acc
        = fold (\<lambda>r acc. fold (addRating r) cats acc) rows acc" for acc
    by (induction rows arbitrary: acc) (simp_all add: addRating_withoutInvalid [abs_def])
  then show ?thesis
    unfolding calcAverages_def by simp
qed

lemma clampRating_iff:
  "clampRating P v \<noteq> None \<longleftrightarrow>
     (\<exists>x. toNumber P v = Some x \<and> 1 \<le> Math_round x \<and> Math_round x \<le> 5)"
  unfolding clampRating_def by (cases "toNumber P v") (auto simp add: Let_def)

lemma addEntry_incomplete: "\<not> completeDay P cats r \<Longrightarrow> addEntry P cats r acc = acc"
  unfolding addEntry_def completeDay_def by (simp add: Let_def split_beta)

lemma fold_addEntry_filter:
  "fold (addEntry P cats) (filter (completeDay P cats) rows) acc = fold (addEntry P cats) rows acc"
  by (induction rows arbitrary: acc) (simp_all add: addEntry_incomplete)

lemma computeAverages_filter:
  "computeAveragesForEntries P cats (filter (completeDay P cats) rows)
     = computeAveragesForEntries P cats rows"
  unfolding computeAveragesForEntries_def by (simp only: fold_addEntry_filter)

text \<open>
  Claim C8. In \<^verbatim>\<open>calcAverages\<close>, a stored score that is not a number, or is a number
  outside 1 to 5, is left out exactly as if it were absent: removing all such values from
  the rows changes nothing, and a category without a valid score in any row gets the
  average \<^verbatim>\<open>null\<close> and the count 0. (\<^verbatim>\<open>calcAverages\<close> computes from the rows it is given
  and writes nothing.) In the tracker, the check for a complete day goes through
  \<^verbatim>\<open>clampRating\<close>: a value passes exactly when \<^verbatim>\<open>Number\<close> makes it a finite number that
  rounds to an integer from 1 to 5, and a day with a value that does not pass contributes
  nothing.
\<close>

theorem invalid_scores:
  "calcAverages cats (map (\<lambda>r. r\<lparr>vals := withoutInvalid (vals r)\<rparr>) rows)
     = calcAverages cats rows \<and>
   (c \<in> set cats \<and> (\<forall>r \<in> set rows. \<not> validScore (getProp (vals r) (key c))) \<longrightarrow>
      map_of (avg (calcAverages cats rows)) (key c) = Some JNull \<and>
      map_of (counts (calcAverages cats rows)) (key c) = Some 0) \<and>
   (clampRating P v \<noteq> None \<longleftrightarrow>
      (\<exists>x. toNumber P v = Some x \<and> 1 \<le> Math_round x \<and> Math_round x \<le> 5)) \<and>
   computeAveragesForEntries P cats (filter (completeDay P cats) entryRows)
     = computeAveragesForEntries P cats entryRows"
  using calcAverages_withoutInvalid calcAverages_no_data clampRating_iff computeAverages_filter
  by blast

text \<open>
  For the tracker the claim fails as stated: a stored 5.4 (outside 1 to 5) and a stored
  \<^verbatim>\<open>true\<close> (not a number) both pass \<^verbatim>\<open>clampRating\<close>, so the day counts as complete and
  enters the averages, while the same day without a score for \<open>a\<close> does not.
\<close>

theorem invalid_scores_counterexample:
  "clampRating example_platform (JNum (27 / 5)) = Some 5 \<and>
   clampRating example_platform (JBool True) = Some 1 \<and>
   daysCount (computeAveragesForEntries example_platform example_categories
                [example_out_of_range_entry]) = 1 \<and>
   perCategory (computeAveragesForEntries example_platform example_categories
                  [example_out_of_range_entry]) = [(''a'', JNum (27 / 5)), (''b'', JNum 2)] \<and>
   daysCount (computeAveragesForEntries example_platform example_categories
                [example_non_numeric_entry]) = 1 \<and>
   perCategory (computeAveragesForEntries example_platform example_categories
                  [example_non_numeric_entry]) = [(''a'', JNum 1), (''b'', JNum 2)] \<and>
   daysCount (computeAveragesForEntries example_platform example_categories
                [example_absent_entry]) = 0 \<and>
   perCategory (computeAveragesForEntries example_platform example_categories
                  [example_absent_entry]) = [(''a'', JNull), (''b'', JNull)]"
  by code_simp

theorem invalid_scores_witness:
  "example_categories ! 1 \<in> set example_categories \<and>
   key (example_categories ! 1) = ''b'' \<and>
   \<not> validScore (getProp (vals (example_invalid_rows ! 0)) ''b'') \<and>
   \<not> validScore (getProp (vals (example_invalid_rows ! 1)) ''b'') \<and>
   map_of (avg (calcAverages example_categories example_invalid_rows)) ''b'' = Some JNull \<and>
   map_of (counts (calcAverages example_categories example_invalid_rows)) ''b'' = Some 0"
proof -
  have m: "example_categories ! 1 \<in> set example_categories"
    by (simp add: example_categories_def)
  have k: "key (example_categories ! 1) = ''b''"
    by (simp add: example_categories_def)
  have v: "\<not> validScore (getProp (vals (example_invalid_rows ! 0)) ''b'')"
    "\<not> validScore (getProp (vals (example_invalid_rows ! 1)) ''b'')"
    by (simp_all add: example_invalid_rows_def validScore_def getProp_def)
  have a: "\<forall>r \<in> set example_invalid_rows.
             \<not> validScore (getProp (vals r) (key (example_categories ! 1)))"
    unfolding k by (simp add: example_invalid_rows_def validScore_def getProp_def)
  note t = invalid_scores [where cats = example_categories and rows = example_invalid_rows
      and c = "example_categories ! 1", THEN conjunct2, THEN conjunct1, THEN mp,
      OF conjI [OF m a], unfolded k]
  show ?thesis
    using m k v t by simp
qed

end
